theory Spec2Isabelle
  imports Complex_Main "HOL-Library.Multiset"
begin

section \<open>Tensor values\<close>

text \<open>
  Tensor elements are modelled in exact arithmetic: a finite element is a real number, and the
  three non-finite values of the floating-point format are kept as separate constructors, so
  that \<open>isfinite\<close>, division by zero and the propagation of \<open>inf\<close> and \<open>nan\<close> are those of the
  program. Rounding, overflow and underflow of finite values are not modelled, and zero
  carries no sign (every zero that reaches a division below is a \<open>+0\<close>: it comes from
  \<open>torch.zeros\<close> or from a sum of non-negative terms).
\<close>

datatype fval = Fin real | PInf | NInf | NaN

fun isfinite :: "fval \<Rightarrow> bool" where
  "isfinite (Fin r) = True"
| "isfinite PInf = False"
| "isfinite NInf = False"
| "isfinite NaN = False"

fun fexp :: "fval \<Rightarrow> fval" where
  "fexp (Fin r) = Fin (exp r)"
| "fexp PInf = PInf"
| "fexp NInf = Fin 0"
| "fexp NaN = NaN"

fun fadd :: "fval \<Rightarrow> fval \<Rightarrow> fval" where
  "fadd (Fin a) (Fin b) = Fin (a + b)"
| "fadd (Fin a) PInf = PInf"
| "fadd (Fin a) NInf = NInf"
| "fadd PInf (Fin b) = PInf"
| "fadd PInf PInf = PInf"
| "fadd PInf NInf = NaN"
| "fadd NInf (Fin b) = NInf"
| "fadd NInf PInf = NaN"
| "fadd NInf NInf = NInf"
| "fadd NaN y = NaN"
| "fadd x NaN = NaN"

fun fmul :: "fval \<Rightarrow> fval \<Rightarrow> fval" where
  "fmul (Fin a) (Fin b) = Fin (a * b)"
| "fmul (Fin a) PInf = (if 0 < a then PInf else if a < 0 then NInf else NaN)"
| "fmul (Fin a) NInf = (if 0 < a then NInf else if a < 0 then PInf else NaN)"
| "fmul PInf (Fin b) = (if 0 < b then PInf else if b < 0 then NInf else NaN)"
| "fmul NInf (Fin b) = (if 0 < b then NInf else if b < 0 then PInf else NaN)"
| "fmul PInf PInf = PInf"
| "fmul PInf NInf = NInf"
| "fmul NInf PInf = NInf"
| "fmul NInf NInf = PInf"
| "fmul NaN y = NaN"
| "fmul x NaN = NaN"

fun fdiv :: "fval \<Rightarrow> fval \<Rightarrow> fval" where
  "fdiv (Fin a) (Fin b) =
     (if b \<noteq> 0 then Fin (a / b)
      else if 0 < a then PInf else if a < 0 then NInf else NaN)"
| "fdiv (Fin a) PInf = Fin 0"
| "fdiv (Fin a) NInf = Fin 0"
| "fdiv PInf (Fin b) = (if 0 \<le> b then PInf else NInf)"
| "fdiv NInf (Fin b) = (if 0 \<le> b then NInf else PInf)"
| "fdiv PInf PInf = NaN"
| "fdiv PInf NInf = NaN"
| "fdiv NInf PInf = NaN"
| "fdiv NInf NInf = NaN"
| "fdiv NaN y = NaN"
| "fdiv x NaN = NaN"

text \<open>The sum of a sequence of elements, as \<open>torch.sum\<close> and Python's accumulation compute it.\<close>

fun fsum :: "fval list \<Rightarrow> fval" where
  "fsum [] = Fin 0"
| "fsum (x # xs) = fadd x (fsum xs)"

text \<open>
  A tensor is its shape and its elements in row-major order, as a contiguous
  \<open>torch.Tensor\<close> stores them. A well-formed tensor has as many elements as its shape says.
\<close>

datatype tensor = Tensor (shape: "nat list") (data: "fval list")

definition wf_tensor :: "tensor \<Rightarrow> bool" where
  "wf_tensor t = (length (data t) = prod_list (shape t))"

text \<open>
  What the program can raise. Python's \<open>assert\<close> raises one exception class; the two
  assertion kinds of the program are kept apart by what they check: finiteness (with the
  description passed to the assertion) and shape.
\<close>

datatype error =
    NumericalError string
  | ShapeError
  | IndexError
  | RuntimeError

subsection \<open>Indexing\<close>

text \<open>All index vectors of a shape, in row-major order, and the offset of an index vector.\<close>

fun indices :: "nat list \<Rightarrow> nat list list" where
  "indices [] = [[]]"
| "indices (n # s) = concat (map (\<lambda>i. map ((#) i) (indices s)) [0..<n])"

fun ravel :: "nat list \<Rightarrow> nat list \<Rightarrow> nat" where
  "ravel (n # s) (i # idx) = i * prod_list s + ravel s idx"
| "ravel s idx = 0"

fun valid :: "nat list \<Rightarrow> nat list \<Rightarrow> bool" where
  "valid [] [] = True"
| "valid (n # s) (i # idx) = (i < n \<and> valid s idx)"
| "valid s idx = False"

definition elem :: "tensor \<Rightarrow> nat list \<Rightarrow> fval" where
  "elem t idx = data t ! ravel (shape t) idx"

definition build :: "nat list \<Rightarrow> (nat list \<Rightarrow> fval) \<Rightarrow> tensor" where
  "build s g = Tensor s (map g (indices s))"

subsection \<open>Broadcasting\<close>

text \<open>
  Two shapes are broadcast from their last dimension backwards: equal sizes stay, a size of 1
  stretches to the other size, a missing dimension counts as 1, anything else is rejected.
\<close>

fun broadcast_rev :: "nat list \<Rightarrow> nat list \<Rightarrow> nat list option" where
  "broadcast_rev [] ys = Some ys"
| "broadcast_rev xs [] = Some xs"
| "broadcast_rev (x # xs) (y # ys) =
     (if x = y \<or> y = 1 then map_option ((#) x) (broadcast_rev xs ys)
      else if x = 1 then map_option ((#) y) (broadcast_rev xs ys)
      else None)"

definition broadcast_shapes :: "nat list \<Rightarrow> nat list \<Rightarrow> nat list option" where
  "broadcast_shapes s1 s2 = map_option rev (broadcast_rev (rev s1) (rev s2))"

text \<open>
  The index at which an operand of shape \<open>src\<close> is read for the index \<open>idx\<close> of the broadcast
  result: leading dimensions the operand does not have are dropped, and a dimension of size 1
  is always read at 0.
\<close>

definition bidx :: "nat list \<Rightarrow> nat list \<Rightarrow> nat list" where
  "bidx src idx =
     map2 (\<lambda>n i. if n = 1 then 0 else i) src (drop (length idx - length src) idx)"

definition binop :: "(fval \<Rightarrow> fval \<Rightarrow> fval) \<Rightarrow> tensor \<Rightarrow> tensor \<Rightarrow> error + tensor" where
  "binop f t u =
     (case broadcast_shapes (shape t) (shape u) of
        None \<Rightarrow> Inl RuntimeError
      | Some s \<Rightarrow>
          Inr (build s (\<lambda>idx. f (elem t (bidx (shape t) idx)) (elem u (bidx (shape u) idx)))))"

text \<open>An in-place operation keeps the shape of its target: the other operand must broadcast to it.\<close>

definition iadd :: "tensor \<Rightarrow> tensor \<Rightarrow> error + tensor" where
  "iadd t u =
     (if broadcast_shapes (shape t) (shape u) = Some (shape t) then binop fadd t u
      else Inl RuntimeError)"

definition tmap :: "(fval \<Rightarrow> fval) \<Rightarrow> tensor \<Rightarrow> tensor" where
  "tmap f t = Tensor (shape t) (map f (data t))"

definition all_finite :: "tensor \<Rightarrow> bool" where
  "all_finite t = list_all isfinite (data t)"

definition zeros :: "nat \<Rightarrow> tensor" where
  "zeros n = Tensor [n] (replicate n (Fin 0))"

definition unsqueeze0 :: "tensor \<Rightarrow> tensor" where
  "unsqueeze0 t = Tensor (1 # shape t) (data t)"

definition size0 :: "tensor \<Rightarrow> error + nat" where
  "size0 t = (case shape t of [] \<Rightarrow> Inl IndexError | n # s \<Rightarrow> Inr n)"

section \<open>The importance-weighted loss of NPE-B (npe_b.py)\<close>

text \<open>
  Modelled from the spec: \<open>utils.assert_all_finite\<close> (module \<open>sbi.utils\<close>) is called by
  \<open>_log_prob_proposal_posterior\<close> and is not among the source files. After the specification
  (4.1, steps 1 and 3, and 7) it asserts that every value of the tensor is finite and fails
  with a numerical error that carries the given description otherwise.
\<close>

definition assert_all_finite :: "tensor \<Rightarrow> string \<Rightarrow> error + unit" where
  "assert_all_finite quantity description =
     (if all_finite quantity then Inr () else Inl (NumericalError description))"

text \<open>
  The fields of the trainer that \<open>_log_prob_proposal_posterior\<close> reads. The prior, the
  proposals of the earlier rounds and the density estimator are objects of other modules:
  each is taken as the function its \<open>log_prob\<close> method computes, from the tensor it is called
  on to the tensor it returns. The fields are \<open>self._prior\<close>, \<open>self._round\<close> (a round index,
  counted from 0), \<open>self._proposal_roundwise\<close> and \<open>self._neural_net\<close>; nothing in the method
  relates the round index to the length of the history.
\<close>

record npe_b =
  prior_log_prob :: "tensor \<Rightarrow> tensor"
  round_idx :: nat
  proposal_roundwise :: "(tensor \<Rightarrow> tensor) list"
  neural_net_log_prob :: "tensor \<Rightarrow> tensor \<Rightarrow> tensor"

text \<open>
  The loop of lines 94 to 96: each density of the history is evaluated and checked, then
  \<open>prop * exp(log_prob)\<close> is added in place to the accumulator \<open>proposal\<close>.
\<close>

fun proposal_loop :: "fval \<Rightarrow> tensor \<Rightarrow> (tensor \<Rightarrow> tensor) list \<Rightarrow> tensor \<Rightarrow> error + tensor" where
  "proposal_loop prop theta [] proposal = Inr proposal"
| "proposal_loop prop theta (density # rest) proposal =
     (case assert_all_finite (density theta) ''proposal eval'' of
        Inl e \<Rightarrow> Inl e
      | Inr u \<Rightarrow>
          (case iadd proposal (tmap (fmul prop) (tmap fexp (density theta))) of
             Inl e \<Rightarrow> Inl e
           | Inr proposal' \<Rightarrow> proposal_loop prop theta rest proposal'))"

text \<open>Lines 91 to 96: the mixture proposal density, the variable \<open>proposal\<close> after the loop.\<close>

definition mixture_proposal :: "npe_b \<Rightarrow> tensor \<Rightarrow> error + tensor" where
  "mixture_proposal self theta =
     (let prop = Fin (1 / (real (round_idx self) + 1)) in
      case size0 theta of
        Inl e \<Rightarrow> Inl e
      | Inr n \<Rightarrow> proposal_loop prop theta (proposal_roundwise self) (zeros n))"

text \<open>Lines 84 to 99: the prior is checked and exponentiated first, then divided by the mixture.\<close>

definition importance_weights :: "npe_b \<Rightarrow> tensor \<Rightarrow> error + tensor" where
  "importance_weights self theta =
     (case assert_all_finite (prior_log_prob self theta) ''prior eval'' of
        Inl e \<Rightarrow> Inl e
      | Inr u \<Rightarrow>
          (let prior = tmap fexp (prior_log_prob self theta) in
           case mixture_proposal self theta of
             Inl e \<Rightarrow> Inl e
           | Inr proposal \<Rightarrow> binop fdiv prior proposal))"

text \<open>
  The whole method. Its parameters \<open>masks\<close> and \<open>proposal\<close> are not read: the name
  \<open>proposal\<close> is rebound to the accumulator before its first use.
\<close>

definition log_prob_proposal_posterior ::
  "npe_b \<Rightarrow> tensor \<Rightarrow> tensor \<Rightarrow> tensor \<Rightarrow> (tensor \<Rightarrow> tensor) option \<Rightarrow> error + tensor" where
  "log_prob_proposal_posterior self theta x masks proposal =
     (case importance_weights self theta of
        Inl e \<Rightarrow> Inl e
      | Inr w \<Rightarrow> binop fmul w (neural_net_log_prob self (unsqueeze0 theta) x))"

section \<open>The binomial-gamma potential (example_01_utils.py)\<close>

subsection \<open>Tensor operations of the potential\<close>

text \<open>Sequencing of steps that may raise: the first error ends the computation.\<close>

fun ebind :: "error + 'a \<Rightarrow> ('a \<Rightarrow> error + 'b) \<Rightarrow> error + 'b" where
  "ebind (Inl e) f = Inl e"
| "ebind (Inr a) f = f a"

fun emap :: "('a \<Rightarrow> error + 'b) \<Rightarrow> 'a list \<Rightarrow> error + 'b list" where
  "emap f [] = Inr []"
| "emap f (a # as) = ebind (f a) (\<lambda>b. ebind (emap f as) (\<lambda>bs. Inr (b # bs)))"

text \<open>
  \<open>t.reshape(a, b, -1)\<close>: the last size is inferred from the number of elements, which the
  known sizes must divide; with a known size of 0 nothing can be inferred.
\<close>

definition reshape3 :: "nat \<Rightarrow> nat \<Rightarrow> tensor \<Rightarrow> error + tensor" where
  "reshape3 a b t =
     (let numel = prod_list (shape t) in
      if a * b = 0 \<or> numel mod (a * b) \<noteq> 0 then Inl RuntimeError
      else Inr (Tensor [a, b, numel div (a * b)] (data t)))"

text \<open>
  A slice \<open>lo:hi\<close> of dimension \<open>k\<close> (\<open>None\<close> for an omitted upper bound). Python clamps the
  bounds of a slice to the size of the dimension.
\<close>

definition slice_dim :: "nat \<Rightarrow> nat \<Rightarrow> nat option \<Rightarrow> tensor \<Rightarrow> error + tensor" where
  "slice_dim k lo hi t =
     (let s = shape t in
      if k < length s then
        (let n = s ! k;
             start = min lo n;
             stop = (case hi of None \<Rightarrow> n | Some h \<Rightarrow> min h n)
         in Inr (build (s[k := stop - start]) (\<lambda>idx. elem t (idx[k := start + idx ! k]))))
      else Inl IndexError)"

text \<open>Indexing dimension \<open>k\<close> with the integer \<open>i\<close>: the dimension disappears.\<close>

definition select_dim :: "nat \<Rightarrow> nat \<Rightarrow> tensor \<Rightarrow> error + tensor" where
  "select_dim k i t =
     (let s = shape t in
      if k < length s \<and> i < s ! k then
        Inr (build (take k s @ drop (Suc k) s) (\<lambda>idx. elem t (take k idx @ [i] @ drop k idx)))
      else Inl IndexError)"

definition sum_dim :: "nat \<Rightarrow> tensor \<Rightarrow> error + tensor" where
  "sum_dim k t =
     (let s = shape t in
      if k < length s then
        Inr (build (take k s @ drop (Suc k) s)
               (\<lambda>idx. fsum (map (\<lambda>i. elem t (take k idx @ [i] @ drop k idx)) [0..<s ! k])))
      else Inl IndexError)"

definition transpose_dims :: "nat \<Rightarrow> nat \<Rightarrow> tensor \<Rightarrow> error + tensor" where
  "transpose_dims i j t =
     (let s = shape t in
      if i < length s \<and> j < length s then
        Inr (build (s[i := s ! j, j := s ! i]) (\<lambda>idx. elem t (idx[i := idx ! j, j := idx ! i])))
      else Inl IndexError)"

text \<open>\<open>torch.stack\<close> along a new first dimension: a non-empty list of tensors of one shape.\<close>

definition stack :: "tensor list \<Rightarrow> error + tensor" where
  "stack ts =
     (case ts of
        [] \<Rightarrow> Inl RuntimeError
      | t # rest \<Rightarrow>
          if list_all (\<lambda>u. shape u = shape t) ts then
            Inr (build (length ts # shape t) (\<lambda>idx. elem (ts ! hd idx) (tl idx)))
          else Inl RuntimeError)"

text \<open>\<open>squeeze()\<close> without an argument removes every dimension of size 1.\<close>

definition squeeze :: "tensor \<Rightarrow> tensor" where
  "squeeze t = Tensor (filter (\<lambda>n. n \<noteq> 1) (shape t)) (data t)"

definition ones_like :: "tensor \<Rightarrow> tensor" where
  "ones_like t = Tensor (shape t) (replicate (prod_list (shape t)) (Fin 1))"

text \<open>An elementwise function of three tensors, the first two broadcast first, then the third.\<close>

definition ternop ::
  "(fval \<Rightarrow> fval \<Rightarrow> fval \<Rightarrow> fval) \<Rightarrow> tensor \<Rightarrow> tensor \<Rightarrow> tensor \<Rightarrow> error + tensor" where
  "ternop f a b c =
     (case broadcast_shapes (shape a) (shape b) of
        None \<Rightarrow> Inl RuntimeError
      | Some s1 \<Rightarrow>
          (case broadcast_shapes s1 (shape c) of
             None \<Rightarrow> Inl RuntimeError
           | Some s \<Rightarrow>
               Inr (build s (\<lambda>idx. f (elem a (bidx (shape a) idx)) (elem b (bidx (shape b) idx))
                                     (elem c (bidx (shape c) idx))))))"

subsection \<open>The potential\<close>

text \<open>
  What the potential uses from other modules, taken as parameters: the log-probability of
  \<open>torch.distributions.Binomial\<close> (one trial, success probability, observed value) and of
  \<open>InverseGamma\<close> (concentration, rate, observed value) on single elements, which the
  distributions apply elementwise after broadcasting their parameters against the value, and
  \<open>atleast_2d\<close> of \<open>sbi.utils.torchutils\<close>. The argument validation of the distribution
  constructors is not modelled.
\<close>

record externals =
  binomial_log_prob :: "fval \<Rightarrow> fval \<Rightarrow> fval"
  inverse_gamma_log_prob :: "fval \<Rightarrow> fval \<Rightarrow> fval \<Rightarrow> fval"
  atleast_2d :: "tensor \<Rightarrow> tensor"

text \<open>\<open>concentration_scaling: Union[Tensor, float]\<close>\<close>

datatype scaling = FloatScaling fval | TensorScaling tensor

record potential =
  prior :: "tensor \<Rightarrow> tensor"
  x_o :: tensor
  concentration_scaling :: scaling

text \<open>
  \<open>__init__\<close>, lines 21 to 31. The base class stores the prior and the observation; a tensor
  of scalings is checked against the number of trials and reshaped.
\<close>

definition init :: "(tensor \<Rightarrow> tensor) \<Rightarrow> tensor \<Rightarrow> scaling \<Rightarrow> error + potential" where
  "init prior_arg x_o_arg scaling_arg =
     (case scaling_arg of
        FloatScaling c \<Rightarrow>
          Inr \<lparr>prior = prior_arg, x_o = x_o_arg, concentration_scaling = FloatScaling c\<rparr>
      | TensorScaling t \<Rightarrow>
          ebind (size0 x_o_arg) (\<lambda>num_trials.
          ebind (size0 t) (\<lambda>n.
          if n \<noteq> num_trials then Inl ShapeError
          else ebind (reshape3 1 num_trials t) (\<lambda>t'.
            Inr \<lparr>prior = prior_arg, x_o = x_o_arg, concentration_scaling = TensorScaling t'\<rparr>))))"

text \<open>Lines 50 to 61: one binomial term per success probability, stacked and transposed.\<close>

definition logprob_choices :: "externals \<Rightarrow> potential \<Rightarrow> tensor \<Rightarrow> error + tensor" where
  "logprob_choices ext self rhos =
     ebind (emap (\<lambda>rho_idx.
              ebind (select_dim 2 rho_idx rhos) (\<lambda>probs.
              ebind (select_dim 1 (1 + rho_idx) (x_o self)) (\<lambda>v.
              binop (binomial_log_prob ext) probs v)))
            [0..<last (shape rhos)]) (\<lambda>lps.
     ebind (stack lps) (\<lambda>stacked.
     ebind (transpose_dims 0 1 stacked) (\<lambda>t1.
     transpose_dims 1 2 t1)))"

text \<open>
  Lines 63 to 65: the inverse-gamma term. The distribution is constructed (its two
  parameters must broadcast) before the observation column is sliced and reshaped.
\<close>

definition logprob_rts :: "externals \<Rightarrow> potential \<Rightarrow> tensor \<Rightarrow> nat \<Rightarrow> error + tensor" where
  "logprob_rts ext self beta num_trials =
     ebind (case concentration_scaling self of
              FloatScaling c \<Rightarrow> Inr (tmap (fmul c) (ones_like beta))
            | TensorScaling t \<Rightarrow> binop fmul t (ones_like beta)) (\<lambda>concentration.
     (case broadcast_shapes (shape concentration) (shape beta) of
        None \<Rightarrow> Inl RuntimeError
      | Some s1 \<Rightarrow>
          ebind (slice_dim 1 0 (Some 1) (x_o self)) (\<lambda>x0.
          ebind (reshape3 1 num_trials x0) (\<lambda>v.
          ternop (inverse_gamma_log_prob ext) concentration beta v))))"

text \<open>
  Lines 42 to 68: the joint log-likelihood per sample and trial, before the assertions.
  \<open>theta[:, :, :1]\<close> and \<open>theta[:, :, 1:]\<close> slice dimension 2 of the reshaped parameters, and
  \<open>dim=-1\<close> is the last dimension of the stacked binomial terms.
\<close>

definition joint_likelihood :: "externals \<Rightarrow> potential \<Rightarrow> tensor \<Rightarrow> error + tensor" where
  "joint_likelihood ext self theta =
     ebind (size0 theta) (\<lambda>batch_size.
     ebind (size0 (x_o self)) (\<lambda>num_trials.
     ebind (reshape3 batch_size 1 theta) (\<lambda>theta3.
     ebind (slice_dim 2 0 (Some 1) theta3) (\<lambda>beta.
     ebind (slice_dim 2 1 None theta3) (\<lambda>rhos.
     ebind (logprob_choices ext self rhos) (\<lambda>choices.
     ebind (logprob_rts ext self beta num_trials) (\<lambda>rts.
     ebind (sum_dim (length (shape choices) - 1) choices) (\<lambda>summed.
     binop fadd summed (squeeze rts)))))))))"

text \<open>
  \<open>iid_likelihood\<close>: the joint log-likelihood, the two assertions of lines 70 and 71, and
  the sum over the trials. The assertion compares with \<open>theta.shape[0]\<close> of the reshaped
  parameters, which is the batch size, and with \<open>x_o.shape[0]\<close>.
\<close>

definition iid_likelihood :: "externals \<Rightarrow> potential \<Rightarrow> tensor \<Rightarrow> error + tensor" where
  "iid_likelihood ext self theta =
     ebind (joint_likelihood ext self theta) (\<lambda>joint.
     ebind (size0 theta) (\<lambda>batch_size.
     ebind (size0 (x_o self)) (\<lambda>num_trials.
     if shape joint \<noteq> [batch_size, num_trials] then Inl ShapeError
     else if \<not> all_finite joint
       then Inl (NumericalError ''Joint likelihood contains infs or nans'')
     else sum_dim 1 joint)))"

text \<open>
  \<open>__call__\<close>. The only state it touches is the gradient mode of the library, which
  \<open>torch.set_grad_enabled\<close> sets on entry of the \<open>with\<close> block and restores on exit, also
  when the block raises. The prior is evaluated after the block. Tensors are values here:
  the graph that the library records for the tensors computed while the mode is on, and
  what the library's own functions do with the mode, are outside this model.
\<close>

record torch_state =
  grad_enabled :: bool

definition call ::
  "externals \<Rightarrow> potential \<Rightarrow> tensor \<Rightarrow> bool \<Rightarrow> torch_state \<Rightarrow> (error + tensor) \<times> torch_state" where
  "call ext self theta track_gradients st =
     (let theta2 = atleast_2d ext theta;
          previous = grad_enabled st;
          st1 = st\<lparr>grad_enabled := track_gradients\<rparr>;
          iid_ll = iid_likelihood ext self theta2;
          st2 = st1\<lparr>grad_enabled := previous\<rparr>
      in (ebind iid_ll (\<lambda>ll. binop fadd ll (prior self theta2)), st2))"

section \<open>Quantities the statements refer to\<close>

text \<open>The real number a finite element stands for (0 for the non-finite ones).\<close>

fun the_fin :: "fval \<Rightarrow> real" where
  "the_fin (Fin r) = r"
| "the_fin PInf = 0"
| "the_fin NInf = 0"
| "the_fin NaN = 0"

text \<open>
  The unweighted average of the exponentiated log-densities of a proposal history at sample
  \<open>i\<close>, after the specification's words (8, second property): the sum divided by the
  length of the history.
\<close>

definition unweighted_average :: "(tensor \<Rightarrow> tensor) list \<Rightarrow> tensor \<Rightarrow> nat \<Rightarrow> real" where
  "unweighted_average hist theta i =
     (\<Sum>d\<leftarrow>hist. exp (the_fin (data (d theta) ! i))) / real (length hist)"

text \<open>
  The concentration scaling that applies to trial \<open>j\<close>, and the layout a tensor of scalings
  has after a construction with one scaling per trial.
\<close>

definition scaling_at :: "potential \<Rightarrow> nat \<Rightarrow> fval" where
  "scaling_at self j =
     (case concentration_scaling self of
        FloatScaling c \<Rightarrow> c
      | TensorScaling cs \<Rightarrow> elem cs [0, j, 0])"

definition scaling_layout :: "potential \<Rightarrow> nat \<Rightarrow> bool" where
  "scaling_layout self t =
     (case concentration_scaling self of
        FloatScaling c \<Rightarrow> True
      | TensorScaling cs \<Rightarrow> shape cs = [1, t, 1])"

text \<open>
  The joint log-likelihood of sample \<open>i\<close> and trial \<open>j\<close> for \<open>k\<close> success probabilities:
  the binomial terms of the observation columns \<open>1..k\<close>, summed, plus the inverse-gamma term
  of column 0.
\<close>

definition joint_term :: "externals \<Rightarrow> potential \<Rightarrow> tensor \<Rightarrow> nat \<Rightarrow> nat \<Rightarrow> nat \<Rightarrow> fval" where
  "joint_term ext self theta k i j =
     fadd (fsum (map (\<lambda>l. binomial_log_prob ext (elem theta [i, 1 + l]) (elem (x_o self) [j, 1 + l]))
                   [0..<k]))
          (inverse_gamma_log_prob ext (scaling_at self j) (elem theta [i, 0]) (elem (x_o self) [j, 0]))"

section \<open>Example inputs\<close>

text \<open>
  A distribution whose log-density is the same value on every sample of the batch (a uniform
  box when the value is finite, a point outside the support when it is \<open>NInf\<close>), an
  estimator that returns one value per sample in the layout (1, batch), and trainers built
  from them.
\<close>

definition flat_log_prob :: "fval \<Rightarrow> tensor \<Rightarrow> tensor" where
  "flat_log_prob c theta =
     (case shape theta of [] \<Rightarrow> Tensor [] [c] | n # s \<Rightarrow> Tensor [n] (replicate n c))"

definition ex_net :: "tensor \<Rightarrow> tensor \<Rightarrow> tensor" where
  "ex_net input cond = Tensor (take 2 (shape input)) (data input)"

definition ex_theta :: tensor where "ex_theta = Tensor [2, 1] [Fin 3, Fin (- 1)]"

definition ex_x :: tensor where "ex_x = Tensor [2, 1] [Fin 0, Fin 0]"

definition ex_masks :: tensor where "ex_masks = Tensor [2] [Fin 1, Fin 1]"

definition ex_trainer :: "fval \<Rightarrow> nat \<Rightarrow> (tensor \<Rightarrow> tensor) list \<Rightarrow> npe_b" where
  "ex_trainer p r hist =
     \<lparr>prior_log_prob = flat_log_prob p, round_idx = r, proposal_roundwise = hist,
      neural_net_log_prob = ex_net\<rparr>"

text \<open>
  For the potential: simple arithmetic in place of the two distribution kernels, so that
  the examples evaluate to numbers, observations with one and with two trials, and
  parameter batches.
\<close>

definition ex_atleast_2d :: "tensor \<Rightarrow> tensor" where
  "ex_atleast_2d t =
     (case shape t of [] \<Rightarrow> Tensor [1, 1] (data t) | [n] \<Rightarrow> Tensor [1, n] (data t) | n # m # s \<Rightarrow> t)"

definition ex_ext :: externals where
  "ex_ext = \<lparr>binomial_log_prob = (\<lambda>p v. fmul p v),
             inverse_gamma_log_prob = (\<lambda>c r v. fadd c (fadd r v)),
             atleast_2d = ex_atleast_2d\<rparr>"

definition ex_potential :: "tensor \<Rightarrow> potential" where
  "ex_potential obs =
     \<lparr>prior = flat_log_prob (Fin 0), x_o = obs, concentration_scaling = FloatScaling (Fin 1)\<rparr>"

definition ex_obs1 :: tensor where "ex_obs1 = Tensor [1, 2] [Fin 5, Fin 1]"

definition ex_obs2 :: tensor where
  "ex_obs2 = Tensor [2, 3] [Fin 5, Fin 1, Fin 0, Fin 7, Fin 0, Fin 1]"

definition ex_obs3 :: tensor where "ex_obs3 = Tensor [1, 3] [Fin 5, Fin 1, Fin 0]"

definition ex_theta1 :: tensor where
  "ex_theta1 = Tensor [2, 2] [Fin 2, Fin (1 / 2), Fin 3, Fin (1 / 4)]"

definition ex_theta2 :: tensor where
  "ex_theta2 = Tensor [2, 3] [Fin 2, Fin (1 / 2), Fin (1 / 4), Fin 3, Fin (1 / 4), Fin (1 / 2)]"

definition ex_theta_inf :: tensor where
  "ex_theta_inf = Tensor [2, 3] [PInf, Fin (1 / 2), Fin (1 / 4), Fin 3, Fin (1 / 4), Fin (1 / 2)]"

definition ex_theta3 :: tensor where
  "ex_theta3 = Tensor [3, 3] [Fin 1, Fin (1 / 2), Fin (1 / 4), Fin 2, Fin (1 / 2), Fin (1 / 4),
                            Fin 3, Fin (1 / 4), Fin (1 / 2)]"

section \<open>Index vectors and offsets\<close>

lemma length_indices: "length (indices s) = prod_list s"
proof (induction s)
  case Nil show ?case by simp
next
  case (Cons n s)
  have "length (concat (map (\<lambda>i. map ((#) i) (indices s)) [0..<n])) = n * prod_list s"
    by (induction n) (simp_all add: Cons)
  then show ?case by simp
qed

lemma concat_nth_uniform:
  "\<forall>x\<in>set xss. length x = n \<Longrightarrow> i < length xss \<Longrightarrow> j < n \<Longrightarrow>
     concat xss ! (i * n + j) = xss ! i ! j"
proof (induction xss arbitrary: i)
  case Nil then show ?case by simp
next
  case (Cons xs xss)
  show ?case
  proof (cases i)
    case 0 with Cons.prems show ?thesis by (simp add: nth_append)
  next
    case (Suc k)
    with Cons.prems have "concat xss ! (k * n + j) = xss ! k ! j"
      by (intro Cons.IH) auto
    with Suc Cons.prems show ?thesis by (simp add: nth_append add.assoc)
  qed
qed

lemma ravel_bound: "valid s idx \<Longrightarrow> ravel s idx < prod_list s"
proof (induction s idx rule: valid.induct)
  case (2 n s i idx)
  then have "i < n" "ravel s idx < prod_list s" by simp_all
  then have "i * prod_list s + ravel s idx < Suc i * prod_list s" by simp
  also have "\<dots> \<le> n * prod_list s" using \<open>i < n\<close> by (intro mult_le_mono1) simp
  finally show ?case by simp
qed simp_all

text \<open>
  Every tensor the program handles is well-formed, and an element of a well-formed tensor
  at a valid index is read within its data. The operations below build their results with
  \<open>build\<close>, which is well-formed by construction, and read their operands at indices that
  are valid whenever the index of the result is.
\<close>

lemma elem_in_range:
  "wf_tensor t \<Longrightarrow> valid (shape t) idx \<Longrightarrow> ravel (shape t) idx < length (data t)"
  by (simp add: wf_tensor_def ravel_bound)

lemma indices_ravel: "valid s idx \<Longrightarrow> indices s ! ravel s idx = idx"
proof (induction s idx rule: valid.induct)
  case (2 n s i idx)
  then have i: "i < n" and v: "valid s idx" by simp_all
  let ?xss = "map (\<lambda>i. map ((#) i) (indices s)) [0..<n]"
  have "concat ?xss ! (i * prod_list s + ravel s idx) = ?xss ! i ! ravel s idx"
    using i ravel_bound[OF v] by (intro concat_nth_uniform) (auto simp: length_indices)
  also have "\<dots> = i # idx" using i v ravel_bound[OF v] "2.IH" by (simp add: length_indices)
  finally show ?case by simp
qed simp_all

lemma set_indices: "set (indices s) = {idx. valid s idx}"
proof (induction s)
  case Nil
  have "\<And>idx. valid [] idx \<longleftrightarrow> idx = []" by (case_tac idx) simp_all
  then show ?case by auto
next
  case (Cons n s)
  have "\<And>idx. valid (n # s) idx \<longleftrightarrow> (\<exists>i r. idx = i # r \<and> i < n \<and> valid s r)"
    by (case_tac idx) simp_all
  with Cons show ?case by auto
qed

lemma elem_build: "valid s idx \<Longrightarrow> elem (build s g) idx = g idx"
  using ravel_bound[of s idx] indices_ravel[of s idx]
  by (simp add: elem_def build_def length_indices)

lemma build_cong: "(\<And>idx. valid s idx \<Longrightarrow> g idx = h idx) \<Longrightarrow> build s g = build s h"
  by (simp add: build_def set_indices)

lemma shape_build [simp]: "shape (build s g) = s" by (simp add: build_def)

lemma wf_build [simp]: "wf_tensor (build s g)" by (simp add: build_def wf_tensor_def length_indices)

lemma indices_1: "indices [n] = map (\<lambda>i. [i]) [0..<n]"
  by (simp add: concat_map_singleton)

lemma build_1: "build [n] g = Tensor [n] (map (\<lambda>i. g [i]) [0..<n])"
  by (simp add: build_def indices_1 comp_def del: indices.simps)

section \<open>Properties of the importance-weighted loss\<close>

subsection \<open>Elementwise operations on batches\<close>

lemma broadcast_shapes_same1 [simp]: "broadcast_shapes [n] [n] = Some [n]"
  by (simp add: broadcast_shapes_def)

lemma broadcast_shapes_1_12 [simp]: "broadcast_shapes [n] [Suc 0, n] = Some [Suc 0, n]"
  by (simp add: broadcast_shapes_def)

lemma binop_rank1:
  assumes "shape t = [n]" "shape u = [n]"
  shows "binop f t u = Inr (Tensor [n] (map (\<lambda>i. f (data t ! i) (data u ! i)) [0..<n]))"
proof -
  have "build [n] (\<lambda>idx. f (elem t (bidx [n] idx)) (elem u (bidx [n] idx)))
      = Tensor [n] (map (\<lambda>i. f (data t ! i) (data u ! i)) [0..<n])"
    using assms by (auto simp: build_1 elem_def bidx_def)
  then show ?thesis using assms by (simp add: binop_def)
qed

lemma indices_1n: "indices [Suc 0, n] = map (\<lambda>i. [0, i]) [0..<n]"
  by (simp add: concat_map_singleton comp_def)

lemma binop_rank1_12:
  assumes "shape t = [n]" "shape u = [1, n]"
  shows "binop f t u = Inr (Tensor [1, n] (map (\<lambda>i. f (data t ! i) (data u ! i)) [0..<n]))"
proof -
  have "build [1, n] (\<lambda>idx. f (elem t (bidx [n] idx)) (elem u (bidx [1, n] idx)))
      = Tensor [1, n] (map (\<lambda>i. f (data t ! i) (data u ! i)) [0..<n])"
    using assms by (auto simp: build_def indices_1n elem_def bidx_def simp del: indices.simps)
  then show ?thesis using assms by (simp add: binop_def)
qed

lemma finite_elem:
  "all_finite t \<Longrightarrow> i < length (data t) \<Longrightarrow> data t ! i = Fin (the_fin (data t ! i))"
  by (cases "data t ! i") (auto simp: all_finite_def list_all_length)

subsection \<open>The loop over the proposal history\<close>

text \<open>
  With every density of the history finite and of the batch's shape, the loop adds up real
  numbers: after it, sample \<open>i\<close> of the accumulator holds its start value plus the sum of
  \<open>prop * exp(log_prob)\<close> over the history.
\<close>

lemma proposal_loop_closed:
  assumes "\<forall>d\<in>set hist. shape (d theta) = [n] \<and> wf_tensor (d theta) \<and> all_finite (d theta)"
    and "length acc = n"
  shows "proposal_loop (Fin c) theta hist (Tensor [n] (map Fin acc)) =
     Inr (Tensor [n] (map (\<lambda>i. Fin (acc ! i + (\<Sum>d\<leftarrow>hist. c * exp (the_fin (data (d theta) ! i))))) [0..<n]))"
  using assms
proof (induction hist arbitrary: acc)
  case Nil
  then have "map Fin acc = map (\<lambda>i. Fin (acc ! i)) [0..<n]"
    by (simp add: list_eq_iff_nth_eq)
  then show ?case by simp
next
  case (Cons d hist)
  let ?acc' = "map (\<lambda>i. acc ! i + c * exp (the_fin (data (d theta) ! i))) [0..<n]"
  from Cons.prems have d: "shape (d theta) = [n]" "wf_tensor (d theta)" "all_finite (d theta)" by simp_all
  then have len: "length (data (d theta)) = n" by (simp add: wf_tensor_def)
  have step: "iadd (Tensor [n] (map Fin acc)) (tmap (fmul (Fin c)) (tmap fexp (d theta)))
      = Inr (Tensor [n] (map Fin ?acc'))"
  proof -
    have "\<And>i. i < n \<Longrightarrow> fadd (map Fin acc ! i) (data (tmap (fmul (Fin c)) (tmap fexp (d theta))) ! i)
        = Fin (acc ! i + c * exp (the_fin (data (d theta) ! i)))"
    proof -
      fix i assume i: "i < n"
      obtain r where r: "data (d theta) ! i = Fin r"
        using finite_elem[OF d(3), of i] i len by auto
      show "fadd (map Fin acc ! i) (data (tmap (fmul (Fin c)) (tmap fexp (d theta))) ! i)
        = Fin (acc ! i + c * exp (the_fin (data (d theta) ! i)))"
        using i len Cons.prems(2) r by (simp add: tmap_def)
    qed
    then show ?thesis
      using d by (simp add: iadd_def tmap_def binop_rank1 comp_def)
  qed
  have "proposal_loop (Fin c) theta hist (Tensor [n] (map Fin ?acc')) =
     Inr (Tensor [n] (map (\<lambda>i. Fin (?acc' ! i + (\<Sum>d\<leftarrow>hist. c * exp (the_fin (data (d theta) ! i))))) [0..<n]))"
    using Cons.prems by (intro Cons.IH) simp_all
  then show ?case using d step
    by (simp add: assert_all_finite_def add.assoc)
qed

lemma mixture_proposal_closed:
  assumes "shape theta = n # s"
    and "\<forall>d\<in>set (proposal_roundwise self). shape (d theta) = [n] \<and> wf_tensor (d theta) \<and> all_finite (d theta)"
  shows "mixture_proposal self theta =
     Inr (Tensor [n] (map (\<lambda>i. Fin (\<Sum>d\<leftarrow>proposal_roundwise self.
            1 / (real (round_idx self) + 1) * exp (the_fin (data (d theta) ! i)))) [0..<n]))"
proof -
  have "zeros n = Tensor [n] (map Fin (replicate n 0))" by (simp add: zeros_def)
  then show ?thesis
    using assms(1) proposal_loop_closed[OF assms(2), of "replicate n 0" "1 / (real (round_idx self) + 1)"]
    by (simp add: mixture_proposal_def size0_def)
qed

lemma importance_weights_closed:
  assumes "shape theta = n # s"
    and "shape (prior_log_prob self theta) = [n]" "wf_tensor (prior_log_prob self theta)"
      "all_finite (prior_log_prob self theta)"
    and "\<forall>d\<in>set (proposal_roundwise self). shape (d theta) = [n] \<and> wf_tensor (d theta) \<and> all_finite (d theta)"
  shows "importance_weights self theta =
     Inr (Tensor [n] (map (\<lambda>i. fdiv (Fin (exp (the_fin (data (prior_log_prob self theta) ! i))))
            (Fin (\<Sum>d\<leftarrow>proposal_roundwise self.
               1 / (real (round_idx self) + 1) * exp (the_fin (data (d theta) ! i))))) [0..<n]))"
proof -
  let ?p = "prior_log_prob self theta"
  have len: "length (data ?p) = n" using assms(2,3) by (simp add: wf_tensor_def)
  have "\<And>i. i < n \<Longrightarrow> fexp (data ?p ! i) = Fin (exp (the_fin (data ?p ! i)))"
  proof -
    fix i assume "i < n"
    then obtain r where "data ?p ! i = Fin r" using finite_elem[OF assms(4), of i] len by auto
    then show "fexp (data ?p ! i) = Fin (exp (the_fin (data ?p ! i)))" by simp
  qed
  then show ?thesis
    using assms(2,4) len mixture_proposal_closed[OF assms(1) assms(5)]
    by (simp add: importance_weights_def assert_all_finite_def binop_rank1 tmap_def)
qed

lemmas ex_simps = ex_trainer_def ex_theta_def ex_x_def ex_masks_def flat_log_prob_def ex_net_def
  unsqueeze0_def wf_tensor_def all_finite_def upt_rec numeral_2_eq_2

subsection \<open>The returned tensor\<close>

text \<open>
  C1. When the prior's and every proposal's log-density are finite on the batch (each a
  well-formed tensor of the batch's length \<open>n\<close>), \<open>_log_prob_proposal_posterior\<close> returns a
  tensor with one entry per sample and no reduction: entry \<open>i\<close> is the prior density
  \<open>exp(prior log-density)\<close> divided by the mixture proposal density, times the estimator's
  log-probability of sample \<open>i\<close>, where the mixture is the sum over the history of
  \<open>1 / (round + 1)\<close> times the exponential of that entry's log-density. The result has the
  layout of the estimator's output, (n) or (1, n). The division and the product are those
  of the tensor elements, so the statement covers the empty history as well.
\<close>

theorem log_prob_proposal_posterior_value:
  assumes "shape theta = n # s"
    and "shape (prior_log_prob self theta) = [n]" "wf_tensor (prior_log_prob self theta)"
      "all_finite (prior_log_prob self theta)"
    and "\<forall>d\<in>set (proposal_roundwise self). shape (d theta) = [n] \<and> wf_tensor (d theta) \<and> all_finite (d theta)"
    and "wf_tensor (neural_net_log_prob self (unsqueeze0 theta) x)"
    and "shape (neural_net_log_prob self (unsqueeze0 theta) x) = [n]
       \<or> shape (neural_net_log_prob self (unsqueeze0 theta) x) = [1, n]"
  shows "log_prob_proposal_posterior self theta x masks proposal =
     Inr (Tensor (shape (neural_net_log_prob self (unsqueeze0 theta) x))
       (map (\<lambda>i. fmul
          (fdiv (Fin (exp (the_fin (data (prior_log_prob self theta) ! i))))
                (Fin (\<Sum>d\<leftarrow>proposal_roundwise self.
                   1 / (real (round_idx self) + 1) * exp (the_fin (data (d theta) ! i)))))
          (data (neural_net_log_prob self (unsqueeze0 theta) x) ! i)) [0..<n]))"
  using assms(7)
proof
  assume "shape (neural_net_log_prob self (unsqueeze0 theta) x) = [n]"
  then show ?thesis
    using importance_weights_closed[OF assms(1-5)]
    by (simp add: log_prob_proposal_posterior_def binop_rank1)
next
  assume "shape (neural_net_log_prob self (unsqueeze0 theta) x) = [1, n]"
  then show ?thesis
    using importance_weights_closed[OF assms(1-5)]
    by (simp add: log_prob_proposal_posterior_def binop_rank1_12)
qed

text \<open>
  An instance: round 1, a history of two proposals with densities 1 and 3, prior density 1.
  The mixture is 2, the weight 1/2, and the estimator's values 3 and -1 are halved.
\<close>

theorem log_prob_proposal_posterior_value_witness:
  "log_prob_proposal_posterior
     (ex_trainer (Fin 0) 1 [flat_log_prob (Fin 0), flat_log_prob (Fin (ln 3))])
     ex_theta ex_x ex_masks None
   = Inr (Tensor [1, 2] [Fin (3 / 2), Fin (- 1 / 2)])"
  using log_prob_proposal_posterior_value[of ex_theta 2 "[1]"
      "ex_trainer (Fin 0) 1 [flat_log_prob (Fin 0), flat_log_prob (Fin (ln 3))]" ex_x ex_masks None]
  by (simp add: ex_simps)

subsection \<open>The empty history\<close>

text \<open>
  C2, as the code has it. With an empty proposal history (round 0) nothing is added to the
  accumulator: the mixture density is 0 for every sample, no case distinction is made, and
  the importance weight is the prior density divided by 0, which is \<open>+inf\<close> for a finite
  prior log-density. It is not 1.
\<close>

theorem importance_weights_empty_history:
  assumes "round_idx self = 0" and "proposal_roundwise self = []"
    and "shape theta = n # s"
    and "shape (prior_log_prob self theta) = [n]" "wf_tensor (prior_log_prob self theta)"
      "all_finite (prior_log_prob self theta)"
  shows "mixture_proposal self theta = Inr (Tensor [n] (replicate n (Fin 0)))
       \<and> importance_weights self theta = Inr (Tensor [n] (replicate n PInf))"
proof -
  have m: "mixture_proposal self theta = Inr (zeros n)"
    using assms(2,3) by (simp add: mixture_proposal_def size0_def)
  have "importance_weights self theta = Inr (Tensor [n] (map (\<lambda>i. PInf) [0..<n]))"
    using importance_weights_closed[OF assms(3-6)] assms(2) by simp
  then show ?thesis using m by (simp add: zeros_def map_replicate_const)
qed

text \<open>
  At round 0 with an empty history and a prior density of 1, both weights are \<open>+inf\<close>.
\<close>

theorem importance_weights_empty_history_counterexample:
  "importance_weights (ex_trainer (Fin 0) 0 []) ex_theta = Inr (Tensor [2] [PInf, PInf])
   \<and> importance_weights (ex_trainer (Fin 0) 0 []) ex_theta \<noteq> Inr (Tensor [2] [Fin 1, Fin 1])"
  by (simp add: importance_weights_def mixture_proposal_def assert_all_finite_def size0_def zeros_def
      binop_rank1 tmap_def Let_def ex_simps)

theorem importance_weights_empty_history_witness:
  "mixture_proposal (ex_trainer (Fin 0) 0 []) ex_theta = Inr (Tensor [2] [Fin 0, Fin 0])
   \<and> importance_weights (ex_trainer (Fin 0) 0 []) ex_theta = Inr (Tensor [2] [PInf, PInf])"
  using importance_weights_empty_history[of "ex_trainer (Fin 0) 0 []" ex_theta 2 "[1]"]
  by (simp add: ex_simps)

subsection \<open>Non-finite log-densities\<close>

lemma proposal_loop_non_finite:
  assumes "\<forall>d\<in>set hist. shape (d theta) = [n]" and "\<exists>d\<in>set hist. \<not> all_finite (d theta)"
    and "shape acc = [n]"
  shows "proposal_loop prop theta hist acc = Inl (NumericalError ''proposal eval'')"
  using assms
proof (induction hist arbitrary: acc)
  case Nil then show ?case by simp
next
  case (Cons d hist)
  show ?case
  proof (cases "all_finite (d theta)")
    case False then show ?thesis by (simp add: assert_all_finite_def)
  next
    case True
    from Cons.prems have sh: "shape (d theta) = [n]" by simp
    obtain acc' where acc': "iadd acc (tmap (fmul prop) (tmap fexp (d theta))) = Inr acc'"
      "shape acc' = [n]"
      using sh Cons.prems(3) by (simp add: iadd_def binop_rank1 tmap_def)
    have "proposal_loop prop theta hist acc' = Inl (NumericalError ''proposal eval'')"
      using Cons.prems True acc'(2) by (intro Cons.IH) auto
    then show ?thesis using True acc' by (simp add: assert_all_finite_def)
  qed
qed

text \<open>
  C3. A non-finite value in the prior's log-density ends the call with the numerical error
  described \<open>prior eval\<close>, before anything else is computed. With a finite prior, a non-finite
  value in the log-density of any proposal of the history ends the call with the numerical
  error described \<open>proposal eval\<close> (the proposals being tensors of the batch's length, so that
  the additions before the failing one succeed). In both cases nothing is returned.
\<close>

theorem non_finite_log_density_raises:
  "(\<not> all_finite (prior_log_prob self theta) \<longrightarrow>
      log_prob_proposal_posterior self theta x masks proposal = Inl (NumericalError ''prior eval''))
   \<and> (all_finite (prior_log_prob self theta) \<and> shape theta = n # s
       \<and> (\<forall>d\<in>set (proposal_roundwise self). shape (d theta) = [n])
       \<and> (\<exists>d\<in>set (proposal_roundwise self). \<not> all_finite (d theta)) \<longrightarrow>
      log_prob_proposal_posterior self theta x masks proposal = Inl (NumericalError ''proposal eval''))"
proof (intro conjI impI)
  assume "\<not> all_finite (prior_log_prob self theta)"
  then show "log_prob_proposal_posterior self theta x masks proposal = Inl (NumericalError ''prior eval'')"
    by (simp add: log_prob_proposal_posterior_def importance_weights_def assert_all_finite_def)
next
  assume a: "all_finite (prior_log_prob self theta) \<and> shape theta = n # s
       \<and> (\<forall>d\<in>set (proposal_roundwise self). shape (d theta) = [n])
       \<and> (\<exists>d\<in>set (proposal_roundwise self). \<not> all_finite (d theta))"
  then have "mixture_proposal self theta = Inl (NumericalError ''proposal eval'')"
    using proposal_loop_non_finite[of "proposal_roundwise self" theta n "zeros n"]
    by (simp add: mixture_proposal_def size0_def zeros_def)
  then show "log_prob_proposal_posterior self theta x masks proposal = Inl (NumericalError ''proposal eval'')"
    using a by (simp add: log_prob_proposal_posterior_def importance_weights_def assert_all_finite_def)
qed

text \<open>
  Instances: a prior that gives \<open>-inf\<close> on the batch, and a history whose second proposal
  gives \<open>nan\<close>.
\<close>

theorem non_finite_log_density_raises_witness:
  "log_prob_proposal_posterior (ex_trainer NInf 1 [flat_log_prob (Fin 0)]) ex_theta ex_x ex_masks None
     = Inl (NumericalError ''prior eval'')
   \<and> log_prob_proposal_posterior (ex_trainer (Fin 0) 2 [flat_log_prob (Fin 0), flat_log_prob NaN])
       ex_theta ex_x ex_masks None
     = Inl (NumericalError ''proposal eval'')"
  using non_finite_log_density_raises[of "ex_trainer NInf 1 [flat_log_prob (Fin 0)]" ex_theta
      ex_x ex_masks None 2 "[1]"]
    non_finite_log_density_raises[of "ex_trainer (Fin 0) 2 [flat_log_prob (Fin 0), flat_log_prob NaN]"
      ex_theta ex_x ex_masks None 2 "[1]"]
  by (simp add: ex_simps)

subsection \<open>The mixture proposal density\<close>

lemma sum_list_mset_cong:
  fixes f :: "'a \<Rightarrow> real"
  shows "mset xs = mset ys \<Longrightarrow> (\<Sum>x\<leftarrow>xs. f x) = (\<Sum>x\<leftarrow>ys. f x)"
proof -
  assume "mset xs = mset ys"
  then have "mset (map f xs) = mset (map f ys)" by (metis mset_map)
  then show ?thesis by (metis sum_mset_sum_list)
qed

text \<open>
  C4, as the code has it. For finite proposal log-densities the mixture proposal density of
  sample \<open>i\<close> is the sum of the exponentiated log-densities of the history divided by
  \<open>round + 1\<close>, whatever the length of the history; it does not depend on the order of the
  history; and it is the unweighted average exactly in the case the weight is made for, a
  history of \<open>round + 1\<close> entries.
\<close>

theorem mixture_proposal_sum:
  assumes "shape theta = n # s"
    and "\<forall>d\<in>set (proposal_roundwise self). shape (d theta) = [n] \<and> wf_tensor (d theta) \<and> all_finite (d theta)"
  shows "mixture_proposal self theta =
       Inr (Tensor [n] (map (\<lambda>i. Fin ((\<Sum>d\<leftarrow>proposal_roundwise self. exp (the_fin (data (d theta) ! i)))
                                   / (real (round_idx self) + 1))) [0..<n]))
     \<and> (\<forall>hist'. mset hist' = mset (proposal_roundwise self) \<longrightarrow>
          mixture_proposal (self\<lparr>proposal_roundwise := hist'\<rparr>) theta = mixture_proposal self theta)
     \<and> (length (proposal_roundwise self) = round_idx self + 1 \<longrightarrow>
          mixture_proposal self theta =
            Inr (Tensor [n] (map (\<lambda>i. Fin (unweighted_average (proposal_roundwise self) theta i)) [0..<n])))"
proof -
  have scale: "(\<Sum>d\<leftarrow>hist. 1 / (real r + 1) * exp (the_fin (data (d theta) ! i)))
      = (\<Sum>d\<leftarrow>hist. exp (the_fin (data (d theta) ! i))) / (real r + 1)" for hist r i
    by (induction hist) (simp_all add: add_divide_distrib)
  have scale': "(\<Sum>d\<leftarrow>hist. exp (the_fin (data (d theta) ! i)) / (real r + 1))
      = (\<Sum>d\<leftarrow>hist. exp (the_fin (data (d theta) ! i))) / (real r + 1)" for hist r i
    by (induction hist) (simp_all add: add_divide_distrib)
  have one: "mixture_proposal self theta =
       Inr (Tensor [n] (map (\<lambda>i. Fin ((\<Sum>d\<leftarrow>proposal_roundwise self. exp (the_fin (data (d theta) ! i)))
                                   / (real (round_idx self) + 1))) [0..<n]))"
    using mixture_proposal_closed[OF assms] by (simp add: scale')
  have two: "mixture_proposal (self\<lparr>proposal_roundwise := hist'\<rparr>) theta = mixture_proposal self theta"
    if h: "mset hist' = mset (proposal_roundwise self)" for hist'
  proof -
    have "set hist' = set (proposal_roundwise self)" using h by (rule mset_eq_setD)
    then have "\<forall>d\<in>set (proposal_roundwise (self\<lparr>proposal_roundwise := hist'\<rparr>)).
        shape (d theta) = [n] \<and> wf_tensor (d theta) \<and> all_finite (d theta)"
      using assms(2) by simp
    from mixture_proposal_closed[OF assms(1) this] one
    show ?thesis by (simp add: scale' sum_list_mset_cong[OF h])
  qed
  have three: "mixture_proposal self theta =
            Inr (Tensor [n] (map (\<lambda>i. Fin (unweighted_average (proposal_roundwise self) theta i)) [0..<n]))"
    if "length (proposal_roundwise self) = round_idx self + 1"
    using one that by (simp add: unweighted_average_def add.commute)
  from one two three show ?thesis by blast
qed

text \<open>
  A history of length 1 at round 1: the mixture is half the density, the average is the
  density itself.
\<close>

theorem mixture_proposal_sum_counterexample:
  "mixture_proposal (ex_trainer (Fin 0) 1 [flat_log_prob (Fin 0)]) ex_theta
     = Inr (Tensor [2] [Fin (1 / 2), Fin (1 / 2)])
   \<and> map (\<lambda>i. Fin (unweighted_average [flat_log_prob (Fin 0)] ex_theta i)) [0..<2] = [Fin 1, Fin 1]
   \<and> mixture_proposal (ex_trainer (Fin 0) 1 [flat_log_prob (Fin 0)]) ex_theta
     \<noteq> Inr (Tensor [2] (map (\<lambda>i. Fin (unweighted_average [flat_log_prob (Fin 0)] ex_theta i)) [0..<2]))"
  by (simp add: mixture_proposal_def assert_all_finite_def size0_def zeros_def iadd_def
      binop_rank1 tmap_def unweighted_average_def Let_def ex_simps)

text \<open>
  Round 1 with the two proposals of densities 1 and 3, in both orders: the mixture is 2.
\<close>

theorem mixture_proposal_sum_witness:
  "mixture_proposal (ex_trainer (Fin 0) 1 [flat_log_prob (Fin 0), flat_log_prob (Fin (ln 3))]) ex_theta
     = Inr (Tensor [2] [Fin 2, Fin 2])
   \<and> mixture_proposal (ex_trainer (Fin 0) 1 [flat_log_prob (Fin (ln 3)), flat_log_prob (Fin 0)]) ex_theta
     = mixture_proposal (ex_trainer (Fin 0) 1 [flat_log_prob (Fin 0), flat_log_prob (Fin (ln 3))]) ex_theta
   \<and> unweighted_average [flat_log_prob (Fin 0), flat_log_prob (Fin (ln 3))] ex_theta 0 = 2"
proof -
  let ?T = "ex_trainer (Fin 0) 1 [flat_log_prob (Fin 0), flat_log_prob (Fin (ln 3))]"
  have h1: "shape ex_theta = 2 # [1]" by (simp add: ex_simps)
  have h2: "\<forall>d\<in>set (proposal_roundwise ?T). shape (d ex_theta) = [2] \<and> wf_tensor (d ex_theta)
      \<and> all_finite (d ex_theta)" by (simp add: ex_simps)
  note t = mixture_proposal_sum[OF h1 h2]
  have a: "mixture_proposal ?T ex_theta = Inr (Tensor [2] [Fin 2, Fin 2])"
    using t[THEN conjunct1] by (simp add: ex_simps)
  have "mset [flat_log_prob (Fin (ln 3)), flat_log_prob (Fin 0)] = mset (proposal_roundwise ?T)"
    by (simp add: ex_trainer_def add.commute)
  from t[THEN conjunct2, THEN conjunct1, rule_format, OF this]
  have b: "mixture_proposal (ex_trainer (Fin 0) 1 [flat_log_prob (Fin (ln 3)), flat_log_prob (Fin 0)]) ex_theta
     = mixture_proposal ?T ex_theta" by (simp add: ex_trainer_def)
  have c: "unweighted_average [flat_log_prob (Fin 0), flat_log_prob (Fin (ln 3))] ex_theta 0 = 2"
    using t[THEN conjunct2, THEN conjunct2] a by (simp add: ex_simps)
  from a b c show ?thesis by simp
qed

subsection \<open>The prior as the only proposal\<close>

text \<open>
  C5, as the code has it. When the history is a single proposal whose log-density on the
  batch is the prior's, the importance weight of every sample is \<open>round + 1\<close>: the single
  mixture term carries the weight \<open>1 / (round + 1)\<close>. It is 1 at round 0.
\<close>

theorem importance_weights_prior_as_proposal:
  assumes "shape theta = n # s"
    and "proposal_roundwise self = [q]" and "q theta = prior_log_prob self theta"
    and "shape (prior_log_prob self theta) = [n]" "wf_tensor (prior_log_prob self theta)"
      "all_finite (prior_log_prob self theta)"
  shows "importance_weights self theta = Inr (Tensor [n] (replicate n (Fin (real (round_idx self) + 1))))
     \<and> (round_idx self = 0 \<longrightarrow> importance_weights self theta = Inr (Tensor [n] (replicate n (Fin 1))))"
proof -
  have h: "\<forall>d\<in>set (proposal_roundwise self). shape (d theta) = [n] \<and> wf_tensor (d theta) \<and> all_finite (d theta)"
    using assms by simp
  have "importance_weights self theta = Inr (Tensor [n] (map (\<lambda>i. Fin (real (round_idx self) + 1)) [0..<n]))"
    using importance_weights_closed[OF assms(1,4,5,6) h] assms(2,3) by (simp add: field_simps)
  then show ?thesis by (simp add: map_replicate_const)
qed

text \<open>
  At round 1 the weights are 2.
\<close>

theorem importance_weights_prior_as_proposal_counterexample:
  "importance_weights (ex_trainer (Fin 0) 1 [flat_log_prob (Fin 0)]) ex_theta
     = Inr (Tensor [2] [Fin 2, Fin 2])
   \<and> importance_weights (ex_trainer (Fin 0) 1 [flat_log_prob (Fin 0)]) ex_theta
     \<noteq> Inr (Tensor [2] [Fin 1, Fin 1])"
  by (simp add: importance_weights_def mixture_proposal_def assert_all_finite_def size0_def zeros_def
      iadd_def binop_rank1 tmap_def Let_def ex_simps)

text \<open>
  At round 0 the weights are 1, at round 2 they are 3.
\<close>

theorem importance_weights_prior_as_proposal_witness:
  "importance_weights (ex_trainer (Fin 0) 0 [flat_log_prob (Fin 0)]) ex_theta
     = Inr (Tensor [2] [Fin 1, Fin 1])
   \<and> importance_weights (ex_trainer (Fin 0) 2 [flat_log_prob (Fin 0)]) ex_theta
     = Inr (Tensor [2] [Fin 3, Fin 3])"
  using importance_weights_prior_as_proposal[of ex_theta 2 "[1]"
      "ex_trainer (Fin 0) 0 [flat_log_prob (Fin 0)]" "flat_log_prob (Fin 0)"]
    importance_weights_prior_as_proposal[of ex_theta 2 "[1]"
      "ex_trainer (Fin 0) 2 [flat_log_prob (Fin 0)]" "flat_log_prob (Fin 0)"]
  by (simp add: ex_simps)

section \<open>Properties of the potential\<close>

subsection \<open>Index vectors of rank 1 to 3, sequencing, units\<close>

lemma valid_Cons_iff: "valid (n # s) idx \<longleftrightarrow> (\<exists>i r. idx = i # r \<and> i < n \<and> valid s r)"
  by (cases idx) simp_all

lemma valid_Nil_iff: "valid [] idx \<longleftrightarrow> idx = []"
  by (cases idx) simp_all

lemma valid_1E: "valid [a] idx \<Longrightarrow> (\<And>i. idx = [i] \<Longrightarrow> i < a \<Longrightarrow> P) \<Longrightarrow> P"
  by (auto simp: valid_Cons_iff valid_Nil_iff)

lemma valid_2E: "valid [a, b] idx \<Longrightarrow> (\<And>i j. idx = [i, j] \<Longrightarrow> i < a \<Longrightarrow> j < b \<Longrightarrow> P) \<Longrightarrow> P"
  by (auto simp: valid_Cons_iff valid_Nil_iff)

lemma valid_3E:
  "valid [a, b, c] idx \<Longrightarrow> (\<And>i j l. idx = [i, j, l] \<Longrightarrow> i < a \<Longrightarrow> j < b \<Longrightarrow> l < c \<Longrightarrow> P) \<Longrightarrow> P"
  by (auto simp: valid_Cons_iff valid_Nil_iff)

lemma emap_all_Inr: "(\<And>a. a \<in> set as \<Longrightarrow> f a = Inr (g a)) \<Longrightarrow> emap f as = Inr (map g as)"
  by (induction as) simp_all

lemma fmul_one [simp]: "fmul c (Fin 1) = c"
  by (cases c) simp_all

declare elem_build [simp]

subsection \<open>Reshaping and slicing the parameters\<close>

lemma reshape3_theta:
  assumes "shape theta = [b, Suc k]" "0 < b"
  shows "reshape3 b 1 theta = Inr (Tensor [b, 1, Suc k] (data theta))"
  using assms by (simp add: reshape3_def)

lemma slice_beta:
  assumes "shape theta = [b, Suc k]"
  shows "slice_dim 2 0 (Some 1) (Tensor [b, 1, Suc k] (data theta))
       = Inr (build [b, 1, 1] (\<lambda>idx. elem theta [idx ! 0, 0]))"
proof -
  have "build [b, 1, 1] (\<lambda>idx. elem (Tensor [b, 1, Suc k] (data theta)) (idx[2 := 0 + idx ! 2]))
      = build [b, 1, 1] (\<lambda>idx. elem theta [idx ! 0, 0])"
    using assms by (intro build_cong) (auto elim!: valid_3E simp: elem_def)
  then show ?thesis by (simp add: slice_dim_def)
qed

lemma slice_rhos:
  assumes "shape theta = [b, Suc k]"
  shows "slice_dim 2 1 None (Tensor [b, 1, Suc k] (data theta))
       = Inr (build [b, 1, k] (\<lambda>idx. elem theta [idx ! 0, 1 + idx ! 2]))"
proof -
  have "build [b, 1, k] (\<lambda>idx. elem (Tensor [b, 1, Suc k] (data theta)) (idx[2 := 1 + idx ! 2]))
      = build [b, 1, k] (\<lambda>idx. elem theta [idx ! 0, 1 + idx ! 2])"
    using assms by (intro build_cong) (auto elim!: valid_3E simp: elem_def)
  then show ?thesis by (simp add: slice_dim_def)
qed

subsection \<open>The binomial terms\<close>

lemma broadcast_b1_t: "broadcast_shapes [b, Suc 0] [t] = Some [b, t]"
  by (simp add: broadcast_shapes_def)

lemma binomial_term:
  assumes "shape rhos = [b, 1, k]" "shape x = [t, m]" "l < k" "Suc l < m"
  shows "ebind (select_dim 2 l rhos) (\<lambda>probs.
         ebind (select_dim 1 (1 + l) x) (\<lambda>v. binop f probs v))
       = Inr (build [b, t] (\<lambda>idx. f (elem rhos [idx ! 0, 0, l]) (elem x [idx ! 1, Suc l])))"
proof -
  let ?probs = "build [b, Suc 0] (\<lambda>idx. elem rhos (take 2 idx @ [l] @ drop 2 idx))"
  let ?v = "build [t] (\<lambda>idx. elem x (take 1 idx @ [1 + l] @ drop 1 idx))"
  have "build [b, t] (\<lambda>idx. f (elem ?probs (bidx [b, Suc 0] idx)) (elem ?v (bidx [t] idx)))
      = build [b, t] (\<lambda>idx. f (elem rhos [idx ! 0, 0, l]) (elem x [idx ! 1, Suc l]))"
    by (intro build_cong) (auto elim!: valid_2E simp: bidx_def)
  then show ?thesis
    using assms by (simp add: select_dim_def binop_def broadcast_b1_t)
qed

lemma stack_uniform:
  assumes "ts \<noteq> []" "\<forall>u\<in>set ts. shape u = s"
  shows "stack ts = Inr (build (length ts # s) (\<lambda>idx. elem (ts ! hd idx) (tl idx)))"
proof (cases ts)
  case Nil with assms show ?thesis by simp
next
  case (Cons t rest)
  with assms have "list_all (\<lambda>u. shape u = shape t) ts" "shape t = s"
    by (auto simp: list_all_iff)
  with Cons show ?thesis by (simp add: stack_def)
qed

lemma logprob_choices_closed:
  assumes "shape rhos = [b, 1, k]" "shape (x_o self) = [t, m]" "0 < k" "k < m"
  shows "logprob_choices ext self rhos
       = Inr (build [b, t, k] (\<lambda>idx. binomial_log_prob ext (elem rhos [idx ! 0, 0, idx ! 2])
                                      (elem (x_o self) [idx ! 1, Suc (idx ! 2)])))"
proof -
  let ?g = "\<lambda>l. build [b, t] (\<lambda>idx. binomial_log_prob ext (elem rhos [idx ! 0, 0, l])
                                      (elem (x_o self) [idx ! 1, Suc l]))"
  let ?lps = "map ?g [0..<k]"
  have lps: "emap (\<lambda>rho_idx.
              ebind (select_dim 2 rho_idx rhos) (\<lambda>probs.
              ebind (select_dim 1 (1 + rho_idx) (x_o self)) (\<lambda>v.
              binop (binomial_log_prob ext) probs v))) [0..<k] = Inr ?lps"
    using assms by (intro emap_all_Inr binomial_term) auto
  have ne: "?lps \<noteq> []" using assms(3) by simp
  have st: "stack ?lps = Inr (build [k, b, t] (\<lambda>idx. elem (?lps ! hd idx) (tl idx)))"
    using stack_uniform[OF ne, of "[b, t]"] by simp
  have fin: "build [b, t, k] (\<lambda>idx. elem (build [b, k, t]
               (\<lambda>idx. elem (build [k, b, t] (\<lambda>idx. elem (?lps ! hd idx) (tl idx)))
                      (idx[0 := idx ! 1, 1 := idx ! 0]))) (idx[1 := idx ! 2, 2 := idx ! 1]))
      = build [b, t, k] (\<lambda>idx. binomial_log_prob ext (elem rhos [idx ! 0, 0, idx ! 2])
                                      (elem (x_o self) [idx ! 1, Suc (idx ! 2)]))"
    by (intro build_cong) (auto elim!: valid_3E)
  show ?thesis
    using assms(1) lps st fin by (simp add: logprob_choices_def transpose_dims_def)
qed

subsection \<open>The inverse-gamma term\<close>

lemma bs_same3: "broadcast_shapes [b, Suc 0, Suc 0] [b, Suc 0, Suc 0] = Some [b, Suc 0, Suc 0]"
  by (simp add: broadcast_shapes_def)

lemma bs_b11_1t1: "broadcast_shapes [b, Suc 0, Suc 0] [Suc 0, t, Suc 0] = Some [b, t, Suc 0]"
  by (auto simp: broadcast_shapes_def)

lemma bs_1t1_b11: "broadcast_shapes [Suc 0, t, Suc 0] [b, Suc 0, Suc 0] = Some [b, t, Suc 0]"
  by (auto simp: broadcast_shapes_def)

lemma bs_bt1_b11: "broadcast_shapes [b, t, Suc 0] [b, Suc 0, Suc 0] = Some [b, t, Suc 0]"
  by (auto simp: broadcast_shapes_def)

lemma bs_bt1_1t1: "broadcast_shapes [b, t, Suc 0] [Suc 0, t, Suc 0] = Some [b, t, Suc 0]"
  by (auto simp: broadcast_shapes_def)

lemma value_column:
  assumes "shape x = [t, m]" "0 < t" "0 < m"
  shows "\<exists>x0. slice_dim 1 0 (Some 1) x = Inr x0
       \<and> reshape3 1 t x0 = Inr (Tensor [1, t, 1] (data (build [t, 1] (\<lambda>idx. elem x [idx ! 0, 0]))))"
proof -
  have "build [t, Suc 0] (\<lambda>idx. elem x (idx[Suc 0 := idx ! Suc 0]))
      = build [t, Suc 0] (\<lambda>idx. elem x [idx ! 0, 0])"
    by (intro build_cong) (auto elim!: valid_2E)
  then show ?thesis
    using assms by (simp add: slice_dim_def reshape3_def)
qed

lemma elem_value_column:
  assumes "j < t"
  shows "elem (Tensor [Suc 0, t, Suc 0] (data (build [t, Suc 0] g))) [0, j, 0] = g [j, 0]"
proof -
  have "elem (build [t, Suc 0] g) [j, 0] = g [j, 0]" using assms by (intro elem_build) simp
  then show ?thesis by (simp add: elem_def)
qed

lemma concentration_closed:
  assumes "shape beta = [b, 1, 1]" "scaling_layout self t"
  shows "(case concentration_scaling self of
              FloatScaling c \<Rightarrow> Inr (tmap (fmul c) (ones_like beta))
            | TensorScaling cs \<Rightarrow> binop fmul cs (ones_like beta))
       = Inr (case concentration_scaling self of
                FloatScaling c \<Rightarrow> Tensor [b, 1, 1] (replicate b c)
              | TensorScaling cs \<Rightarrow> build [b, t, 1] (\<lambda>idx. elem cs [0, idx ! 1, 0]))"
proof (cases "concentration_scaling self")
  case (FloatScaling c)
  then show ?thesis using assms(1) by (simp add: tmap_def ones_like_def)
next
  case (TensorScaling cs)
  then have sh: "shape cs = [1, t, 1]" using assms(2) by (simp add: scaling_layout_def)
  have "build [b, t, Suc 0] (\<lambda>idx. fmul (elem cs (bidx [Suc 0, t, Suc 0] idx))
            (elem (ones_like beta) (bidx [b, Suc 0, Suc 0] idx)))
      = build [b, t, Suc 0] (\<lambda>idx. elem cs [0, idx ! 1, 0])"
    using assms(1) by (intro build_cong) (auto elim!: valid_3E simp: bidx_def elem_def ones_like_def)
  then show ?thesis using TensorScaling sh assms(1)
    by (simp add: binop_def bs_1t1_b11 ones_like_def)
qed

lemma elem_replicate3:
  "i < b \<Longrightarrow> elem (Tensor [b, Suc 0, Suc 0] (replicate b c)) [i, 0, 0] = c"
  by (simp add: elem_def)

lemma logprob_rts_closed:
  assumes "shape beta = [b, 1, 1]" "shape (x_o self) = [t, m]" "0 < t" "0 < m"
    and "scaling_layout self t"
  shows "logprob_rts ext self beta t
       = Inr (build [b, t, 1] (\<lambda>idx. inverse_gamma_log_prob ext (scaling_at self (idx ! 1))
                                      (elem beta [idx ! 0, 0, 0]) (elem (x_o self) [idx ! 1, 0])))"
proof -
  let ?v = "Tensor [1, t, 1] (data (build [t, 1] (\<lambda>idx. elem (x_o self) [idx ! 0, 0])))"
  obtain x0 where x0: "slice_dim 1 0 (Some 1) (x_o self) = Inr x0" "reshape3 1 t x0 = Inr ?v"
    using value_column[OF assms(2,3,4)] by blast
  show ?thesis
  proof (cases "concentration_scaling self")
    case (FloatScaling c)
    let ?conc = "Tensor [b, 1, 1] (replicate b c)"
    have "build [b, t, Suc 0] (\<lambda>idx. inverse_gamma_log_prob ext
            (elem ?conc (bidx [b, Suc 0, Suc 0] idx)) (elem beta (bidx [b, Suc 0, Suc 0] idx))
            (elem ?v (bidx [Suc 0, t, Suc 0] idx)))
      = build [b, t, Suc 0] (\<lambda>idx. inverse_gamma_log_prob ext c (elem beta [idx ! 0, 0, 0])
                                      (elem (x_o self) [idx ! 1, 0]))"
      by (intro build_cong) (auto elim!: valid_3E simp: bidx_def elem_value_column elem_replicate3)
    then have "ternop (inverse_gamma_log_prob ext) ?conc beta ?v
      = Inr (build [b, t, 1] (\<lambda>idx. inverse_gamma_log_prob ext c (elem beta [idx ! 0, 0, 0])
                                      (elem (x_o self) [idx ! 1, 0])))"
      using assms(1) by (simp add: ternop_def bs_same3 bs_b11_1t1)
    then show ?thesis
      using FloatScaling assms(1) x0 concentration_closed[OF assms(1,5)]
      by (simp add: logprob_rts_def bs_same3 scaling_at_def)
  next
    case (TensorScaling cs)
    let ?conc = "build [b, t, 1] (\<lambda>idx. elem cs [0, idx ! 1, 0])"
    have "build [b, t, Suc 0] (\<lambda>idx. inverse_gamma_log_prob ext
            (elem ?conc (bidx [b, t, Suc 0] idx)) (elem beta (bidx [b, Suc 0, Suc 0] idx))
            (elem ?v (bidx [Suc 0, t, Suc 0] idx)))
      = build [b, t, Suc 0] (\<lambda>idx. inverse_gamma_log_prob ext (elem cs [0, idx ! 1, 0])
                                      (elem beta [idx ! 0, 0, 0]) (elem (x_o self) [idx ! 1, 0]))"
      by (intro build_cong) (auto elim!: valid_3E simp: bidx_def elem_value_column)
    then have "ternop (inverse_gamma_log_prob ext) ?conc beta ?v
      = Inr (build [b, t, 1] (\<lambda>idx. inverse_gamma_log_prob ext (elem cs [0, idx ! 1, 0])
                                      (elem beta [idx ! 0, 0, 0]) (elem (x_o self) [idx ! 1, 0])))"
      using assms(1) by (simp add: ternop_def bs_bt1_b11 bs_bt1_1t1)
    then show ?thesis
      using TensorScaling assms(1) x0 concentration_closed[OF assms(1,5)]
      by (simp add: logprob_rts_def bs_bt1_b11 scaling_at_def)
  qed
qed

subsection \<open>Summing, squeezing and adding\<close>

lemma sum_last3:
  "sum_dim 2 (build [b, t, k] g)
     = Inr (build [b, t] (\<lambda>idx. fsum (map (\<lambda>l. g [idx ! 0, idx ! 1, l]) [0..<k])))"
proof -
  have "build [b, t] (\<lambda>idx. fsum (map (\<lambda>l. elem (build [b, t, k] g) (take 2 idx @ [l] @ drop 2 idx)) [0..<k]))
      = build [b, t] (\<lambda>idx. fsum (map (\<lambda>l. g [idx ! 0, idx ! 1, l]) [0..<k]))"
    by (intro build_cong arg_cong[where f=fsum] map_cong) (auto elim!: valid_2E)
  then show ?thesis by (simp add: sum_dim_def)
qed

lemma sum_dim1_2:
  "sum_dim 1 (build [b, t] g)
     = Inr (Tensor [b] (map (\<lambda>i. fsum (map (\<lambda>j. g [i, j]) [0..<t])) [0..<b]))"
proof -
  have "build [b] (\<lambda>idx. fsum (map (\<lambda>j. elem (build [b, t] g) (take 1 idx @ [j] @ drop 1 idx)) [0..<t]))
      = build [b] (\<lambda>idx. fsum (map (\<lambda>j. g [idx ! 0, j]) [0..<t]))"
    by (intro build_cong arg_cong[where f=fsum] map_cong) (auto elim!: valid_1E)
  then show ?thesis by (simp add: sum_dim_def build_1)
qed

lemma elem_squeezed_bt:
  assumes "i < b" "j < t"
  shows "elem (Tensor [b, t] (data (build [b, t, Suc 0] g))) [i, j] = g [i, j, 0]"
proof -
  have "elem (build [b, t, Suc 0] g) [i, j, 0] = g [i, j, 0]" using assms by (intro elem_build) simp
  then show ?thesis by (simp add: elem_def)
qed

lemma elem_squeezed_t:
  assumes "j < t"
  shows "elem (Tensor [t] (data (build [Suc 0, t, Suc 0] g))) [j] = g [0, j, 0]"
proof -
  have "elem (build [Suc 0, t, Suc 0] g) [0, j, 0] = g [0, j, 0]" using assms by (intro elem_build) simp
  then show ?thesis by (simp add: elem_def)
qed

lemma elem_squeezed_b:
  assumes "i < b"
  shows "elem (Tensor [b] (data (build [b, Suc 0, Suc 0] g))) [i] = g [i, 0, 0]"
proof -
  have "elem (build [b, Suc 0, Suc 0] g) [i, 0, 0] = g [i, 0, 0]" using assms by (intro elem_build) simp
  then show ?thesis by (simp add: elem_def)
qed

lemma elem_squeezed_0:
  "elem (Tensor [] (data (build [Suc 0, Suc 0, Suc 0] g))) [] = g [0, 0, 0]"
proof -
  have "elem (build [Suc 0, Suc 0, Suc 0] g) [0, 0, 0] = g [0, 0, 0]" by (intro elem_build) simp
  then show ?thesis by (simp add: elem_def)
qed

text \<open>
  Adding the squeezed inverse-gamma term to the (b, t) sum of the binomial terms. With more
  than one trial, or with a single sample, the squeezed term broadcasts to (b, t) entry by
  entry. With one trial and several samples it has the shape (b) and is read along the
  last dimension of the sum: the result has the shape (b, b).
\<close>

lemma add_squeezed_ok:
  assumes "t \<noteq> 1 \<or> b = 1"
  shows "binop fadd (build [b, t] S) (squeeze (build [b, t, 1] R))
       = Inr (build [b, t] (\<lambda>idx. fadd (S idx) (R [idx ! 0, idx ! 1, 0])))"
proof -
  consider (bt) "b \<noteq> 1" "t \<noteq> 1" | (t) "b = 1" "t \<noteq> 1" | (z) "b = 1" "t = 1"
    using assms by blast
  then show ?thesis
  proof cases
    case bt
    have "build [b, t] (\<lambda>idx. fadd (elem (build [b, t] S) (bidx [b, t] idx))
               (elem (Tensor [b, t] (data (build [b, t, Suc 0] R))) (bidx [b, t] idx)))
        = build [b, t] (\<lambda>idx. fadd (S idx) (R [idx ! 0, idx ! 1, 0]))"
      using bt by (intro build_cong) (auto elim!: valid_2E simp: bidx_def elem_squeezed_bt)
    then show ?thesis using bt by (simp add: binop_def squeeze_def broadcast_shapes_def)
  next
    case t
    have "build [Suc 0, t] (\<lambda>idx. fadd (elem (build [Suc 0, t] S) (bidx [Suc 0, t] idx))
               (elem (Tensor [t] (data (build [Suc 0, t, Suc 0] R))) (bidx [t] idx)))
        = build [Suc 0, t] (\<lambda>idx. fadd (S idx) (R [idx ! 0, idx ! 1, 0]))"
      using t by (intro build_cong) (auto elim!: valid_2E simp: bidx_def elem_squeezed_t)
    then show ?thesis using t by (simp add: binop_def squeeze_def broadcast_shapes_def)
  next
    case z
    have "build [Suc 0, Suc 0] (\<lambda>idx. fadd (elem (build [Suc 0, Suc 0] S) (bidx [Suc 0, Suc 0] idx))
               (elem (Tensor [] (data (build [Suc 0, Suc 0, Suc 0] R))) (bidx [] idx)))
        = build [Suc 0, Suc 0] (\<lambda>idx. fadd (S idx) (R [idx ! 0, idx ! 1, 0]))"
      by (intro build_cong) (auto elim!: valid_2E simp: bidx_def elem_squeezed_0)
    then show ?thesis using z by (simp add: binop_def squeeze_def broadcast_shapes_def)
  qed
qed

lemma add_squeezed_single_trial:
  assumes "b \<noteq> 1"
  shows "binop fadd (build [b, 1] S) (squeeze (build [b, 1, 1] R))
       = Inr (build [b, b] (\<lambda>idx. fadd (S [idx ! 0, 0]) (R [idx ! 1, 0, 0])))"
proof -
  have "build [b, b] (\<lambda>idx. fadd (elem (build [b, Suc 0] S) (bidx [b, Suc 0] idx))
               (elem (Tensor [b] (data (build [b, Suc 0, Suc 0] R))) (bidx [b] idx)))
        = build [b, b] (\<lambda>idx. fadd (S [idx ! 0, 0]) (R [idx ! 1, 0, 0]))"
    using assms by (intro build_cong) (auto elim!: valid_2E simp: bidx_def elem_squeezed_b)
  then show ?thesis using assms by (simp add: binop_def squeeze_def broadcast_shapes_def)
qed

subsection \<open>The joint log-likelihood\<close>

lemma joint_parts:
  assumes "shape theta = [b, Suc k]" "0 < b" "0 < k"
    and "shape (x_o self) = [t, m]" "0 < t" "k < m"
    and "scaling_layout self t"
  shows "joint_likelihood ext self theta =
     binop fadd
       (build [b, t] (\<lambda>idx. fsum (map (\<lambda>l. binomial_log_prob ext (elem theta [idx ! 0, 1 + l])
                                               (elem (x_o self) [idx ! 1, 1 + l])) [0..<k])))
       (squeeze (build [b, t, 1] (\<lambda>idx. inverse_gamma_log_prob ext (scaling_at self (idx ! 1)) (elem theta [idx ! 0, 0])
                                      (elem (x_o self) [idx ! 1, 0]))))"
proof -
  let ?beta = "build [b, 1, 1] (\<lambda>idx. elem theta [idx ! 0, 0])"
  let ?rhos = "build [b, 1, k] (\<lambda>idx. elem theta [idx ! 0, 1 + idx ! 2])"
  let ?choices = "build [b, t, k] (\<lambda>idx. binomial_log_prob ext (elem ?rhos [idx ! 0, 0, idx ! 2])
                                      (elem (x_o self) [idx ! 1, Suc (idx ! 2)]))"
  let ?rts = "build [b, t, 1] (\<lambda>idx. inverse_gamma_log_prob ext (scaling_at self (idx ! 1)) (elem ?beta [idx ! 0, 0, 0])
                                      (elem (x_o self) [idx ! 1, 0]))"
  have m: "0 < m" using assms(3,6) by simp
  have ch: "logprob_choices ext self ?rhos = Inr ?choices"
    by (rule logprob_choices_closed[where t=t and m=m]) (use assms in simp_all)
  have rt: "logprob_rts ext self ?beta t = Inr ?rts"
    by (rule logprob_rts_closed[where m=m]) (use assms m in simp_all)
  have su: "sum_dim (Suc (Suc 0)) ?choices
      = Inr (build [b, t] (\<lambda>idx. fsum (map (\<lambda>l. binomial_log_prob ext (elem theta [idx ! 0, 1 + l])
                                               (elem (x_o self) [idx ! 1, 1 + l])) [0..<k])))"
  proof -
    have "build [b, t] (\<lambda>idx. fsum (map (\<lambda>l. binomial_log_prob ext (elem ?rhos [idx ! 0, 0, l])
                                      (elem (x_o self) [idx ! 1, Suc l])) [0..<k]))
        = build [b, t] (\<lambda>idx. fsum (map (\<lambda>l. binomial_log_prob ext (elem theta [idx ! 0, 1 + l])
                                               (elem (x_o self) [idx ! 1, 1 + l])) [0..<k]))"
      by (intro build_cong arg_cong[where f=fsum] map_cong) (auto elim!: valid_2E)
    then show ?thesis by (simp add: sum_last3[unfolded numeral_2_eq_2] numeral_2_eq_2)
  qed
  have rts: "?rts = build [b, t, 1] (\<lambda>idx. inverse_gamma_log_prob ext (scaling_at self (idx ! 1)) (elem theta [idx ! 0, 0])
                                      (elem (x_o self) [idx ! 1, 0]))"
    by (intro build_cong) (auto elim!: valid_3E)
  show ?thesis
    using assms(1,2,4) reshape3_theta[OF assms(1,2)] slice_beta[OF assms(1)] slice_rhos[OF assms(1)]
      ch rt su rts
    by (simp add: joint_likelihood_def size0_def)
qed

lemma joint_likelihood_closed:
  assumes "shape theta = [b, Suc k]" "0 < b" "0 < k"
    and "shape (x_o self) = [t, m]" "0 < t" "k < m"
    and "scaling_layout self t"
    and "t \<noteq> 1 \<or> b = 1"
  shows "joint_likelihood ext self theta
       = Inr (build [b, t] (\<lambda>idx. joint_term ext self theta k (idx ! 0) (idx ! 1)))"
  using joint_parts[OF assms(1-7)] add_squeezed_ok[OF assms(8)]
  by (simp add: joint_term_def)

lemma joint_likelihood_single_trial:
  assumes "shape theta = [b, Suc k]" "1 < b" "0 < k"
    and "shape (x_o self) = [1, m]" "k < m"
    and "scaling_layout self 1"
  shows "joint_likelihood ext self theta
       = Inr (build [b, b] (\<lambda>idx.
           fadd (fsum (map (\<lambda>l. binomial_log_prob ext (elem theta [idx ! 0, 1 + l])
                                               (elem (x_o self) [0, 1 + l])) [0..<k]))
                (inverse_gamma_log_prob ext (scaling_at self 0) (elem theta [idx ! 1, 0]) (elem (x_o self) [0, 0]))))"
proof -
  have "b \<noteq> 1" "0 < b" using assms(2) by simp_all
  then show ?thesis
    using joint_parts[OF assms(1) \<open>0 < b\<close> assms(3,4) _ assms(5,6), of ext]
      add_squeezed_single_trial[OF \<open>b \<noteq> 1\<close>]
    by simp
qed

lemma all_finite_build: "all_finite (build s g) \<longleftrightarrow> (\<forall>idx. valid s idx \<longrightarrow> isfinite (g idx))"
  by (auto simp: all_finite_def build_def list_all_iff set_indices)

lemmas potential_defs = iid_likelihood_def joint_likelihood_def logprob_rts_def logprob_choices_def
  ternop_def ones_like_def squeeze_def stack_def transpose_dims_def sum_dim_def select_dim_def
  slice_dim_def reshape3_def size0_def binop_def broadcast_shapes_def tmap_def build_def elem_def
  bidx_def all_finite_def Let_def upt_rec

lemmas ex_potential_defs = ex_ext_def ex_potential_def ex_obs1_def ex_obs2_def ex_obs3_def
  ex_theta1_def ex_theta2_def ex_theta_inf_def ex_theta3_def

lemma ex_joint1: "joint_likelihood ex_ext (ex_potential ex_obs1) ex_theta1
     = Inr (Tensor [2, 2] [Fin (17 / 2), Fin (19 / 2), Fin (33 / 4), Fin (37 / 4)])"
  by (simp add: ex_potential_defs potential_defs)

lemma ex_joint_inf: "joint_likelihood ex_ext (ex_potential ex_obs2) ex_theta_inf
     = Inr (Tensor [2, 2] [PInf, PInf, Fin (37 / 4), Fin (23 / 2)])"
  by (simp add: ex_potential_defs potential_defs)

lemma ex_iid2: "iid_likelihood ex_ext (ex_potential ex_obs2) ex_theta2
     = Inr (Tensor [2] [Fin (75 / 4), Fin (83 / 4)])"
  by (simp add: ex_potential_defs potential_defs)

subsection \<open>The value of the likelihood\<close>

text \<open>
  For a batch of \<open>b\<close> parameter vectors \<open>(beta, rho_1 .. rho_k)\<close> and \<open>t\<close> observed trials, with
  more than one trial or a single sample, and all joint values finite, \<open>iid_likelihood\<close>
  returns for sample \<open>i\<close> the sum over the trials of the joint term: position 0 of the
  parameters is the rate of the inverse-gamma term on observation column 0, position
  \<open>1 + l\<close> the success probability of the binomial term on observation column \<open>1 + l\<close>.
\<close>

lemma iid_likelihood_value:
  assumes "shape theta = [b, Suc k]" "0 < b" "0 < k"
    and "shape (x_o self) = [t, m]" "0 < t" "k < m"
    and "scaling_layout self t"
    and "t \<noteq> 1 \<or> b = 1"
    and "\<forall>i<b. \<forall>j<t. isfinite (joint_term ext self theta k i j)"
  shows "iid_likelihood ext self theta
       = Inr (Tensor [b] (map (\<lambda>i. fsum (map (\<lambda>j. joint_term ext self theta k i j) [0..<t])) [0..<b]))"
proof -
  let ?joint = "build [b, t] (\<lambda>idx. joint_term ext self theta k (idx ! 0) (idx ! 1))"
  have j: "joint_likelihood ext self theta = Inr ?joint"
    by (rule joint_likelihood_closed[OF assms(1-8)])
  have f: "all_finite ?joint"
    using assms(9) by (auto simp: all_finite_build elim!: valid_2E)
  show ?thesis
    using j f assms(1,4) sum_dim1_2[of b t "\<lambda>idx. joint_term ext self theta k (idx ! 0) (idx ! 1)"]
    by (simp add: iid_likelihood_def size0_def)
qed

theorem iid_likelihood_value_example:
  "iid_likelihood ex_ext (ex_potential ex_obs2) ex_theta2 = Inr (Tensor [2] [Fin (75 / 4), Fin (83 / 4)])"
  using iid_likelihood_value[of ex_theta2 2 2 "ex_potential ex_obs2" 2 3 ex_ext]
  by (simp add: ex_potential_defs scaling_layout_def scaling_at_def joint_term_def elem_def
      upt_rec numeral_2_eq_2 less_Suc_eq)

text \<open>
  C6. The case the above leaves out, at a concrete input: two samples \<open>(2, 1/2)\<close> and
  \<open>(3, 1/4)\<close>, a single observed trial \<open>(5, 1)\<close> and the scaling 1.0. Whatever the two
  distribution kernels compute, the joint log-likelihood comes out with the shape (2, 2)
  instead of (2, 1), the assertion on the shape fails, and no log-likelihood is returned.
\<close>

theorem iid_likelihood_single_trial_failure:
  "(\<exists>joint. joint_likelihood ext (ex_potential ex_obs1) ex_theta1 = Inr joint
       \<and> shape joint = [2, 2])
   \<and> iid_likelihood ext (ex_potential ex_obs1) ex_theta1 = Inl ShapeError"
  by (simp add: ex_potential_defs potential_defs)

subsection \<open>Construction\<close>

text \<open>
  C7, as the code has it. A tensor of scalings whose first size differs from the number of
  observed trials is rejected at construction by the assertion. Otherwise (with at least one
  trial) it is stored reshaped to \<open>(1, num_trials, -1)\<close>: the last size is the number of
  scalings per trial, and the layout is (1, num_trials, 1) when there is one scaling per trial.
\<close>

theorem init_tensor_scaling:
  assumes "shape x_o_arg = t # s" "shape cs = n # ns"
  shows "(n \<noteq> t \<longrightarrow> init p x_o_arg (TensorScaling cs) = Inl ShapeError)
       \<and> (n = t \<and> 0 < t \<longrightarrow> init p x_o_arg (TensorScaling cs) =
            Inr \<lparr>prior = p, x_o = x_o_arg,
                 concentration_scaling = TensorScaling (Tensor [1, t, prod_list ns] (data cs))\<rparr>)
       \<and> (n = t \<and> 0 < t \<and> prod_list ns = 1 \<longrightarrow> init p x_o_arg (TensorScaling cs) =
            Inr \<lparr>prior = p, x_o = x_o_arg,
                 concentration_scaling = TensorScaling (Tensor [1, t, 1] (data cs))\<rparr>)"
  using assms by (auto simp: init_def size0_def reshape3_def)

text \<open>
  Two scalings for each of two trials are stored in the layout (1, 2, 2).
\<close>

theorem init_tensor_scaling_counterexample:
  "init (flat_log_prob (Fin 0)) ex_obs2 (TensorScaling (Tensor [2, 2] [Fin 1, Fin 2, Fin 3, Fin 4]))
     = Inr \<lparr>prior = flat_log_prob (Fin 0), x_o = ex_obs2,
            concentration_scaling = TensorScaling (Tensor [1, 2, 2] [Fin 1, Fin 2, Fin 3, Fin 4])\<rparr>
   \<and> \<not> scaling_layout
        \<lparr>prior = flat_log_prob (Fin 0), x_o = ex_obs2,
         concentration_scaling = TensorScaling (Tensor [1, 2, 2] [Fin 1, Fin 2, Fin 3, Fin 4])\<rparr> 2"
  by (simp add: init_def size0_def reshape3_def ex_obs2_def scaling_layout_def)

text \<open>
  Three scalings for two trials are rejected; two scalings per trial and one scaling per
  trial are stored as (1, 2, 2) and (1, 2, 1).
\<close>

theorem init_tensor_scaling_witness:
  "init (flat_log_prob (Fin 0)) ex_obs2 (TensorScaling (Tensor [3] [Fin 1, Fin 2, Fin 3]))
     = Inl ShapeError
   \<and> init (flat_log_prob (Fin 0)) ex_obs2 (TensorScaling (Tensor [2, 2] [Fin 1, Fin 2, Fin 3, Fin 4]))
     = Inr \<lparr>prior = flat_log_prob (Fin 0), x_o = ex_obs2,
            concentration_scaling = TensorScaling (Tensor [1, 2, 2] [Fin 1, Fin 2, Fin 3, Fin 4])\<rparr>
   \<and> init (flat_log_prob (Fin 0)) ex_obs2 (TensorScaling (Tensor [2] [Fin 1, Fin 2]))
     = Inr \<lparr>prior = flat_log_prob (Fin 0), x_o = ex_obs2,
            concentration_scaling = TensorScaling (Tensor [1, 2, 1] [Fin 1, Fin 2])\<rparr>"
  using init_tensor_scaling[of ex_obs2 2 "[3]" "Tensor [3] [Fin 1, Fin 2, Fin 3]" 3 "[]"
      "flat_log_prob (Fin 0)"]
    init_tensor_scaling[of ex_obs2 2 "[3]" "Tensor [2, 2] [Fin 1, Fin 2, Fin 3, Fin 4]" 2 "[2]"
      "flat_log_prob (Fin 0)"]
    init_tensor_scaling[of ex_obs2 2 "[3]" "Tensor [2] [Fin 1, Fin 2]" 2 "[]"
      "flat_log_prob (Fin 0)"]
  by (simp add: ex_obs2_def)

subsection \<open>The assertions\<close>

text \<open>
  C8. Between the joint log-likelihood and the sum over the trials stand the two assertions:
  a joint tensor whose shape is not (batch_size, num_trials) ends the call with the shape
  error, one of the right shape with a non-finite value ends it with the numerical error,
  and whenever \<open>iid_likelihood\<close> returns, the joint tensor had the shape
  (batch_size, num_trials) and only finite values, and the result is its sum over dimension 1.
\<close>

theorem iid_likelihood_assertions:
  assumes "shape theta = b # s" "shape (x_o self) = t # s'"
  shows "(joint_likelihood ext self theta = Inr joint \<and> shape joint \<noteq> [b, t] \<longrightarrow>
            iid_likelihood ext self theta = Inl ShapeError)
       \<and> (joint_likelihood ext self theta = Inr joint \<and> shape joint = [b, t] \<and> \<not> all_finite joint \<longrightarrow>
            iid_likelihood ext self theta = Inl (NumericalError ''Joint likelihood contains infs or nans''))
       \<and> (iid_likelihood ext self theta = Inr r \<longrightarrow>
            (\<exists>joint'. joint_likelihood ext self theta = Inr joint' \<and> shape joint' = [b, t]
                \<and> all_finite joint' \<and> sum_dim 1 joint' = Inr r))"
  using assms
  by (cases "joint_likelihood ext self theta")
     (auto simp: iid_likelihood_def size0_def split: if_splits)

text \<open>
  Instances of the three cases: one trial with two samples, an infinite rate, and two
  trials with finite parameters.
\<close>

theorem iid_likelihood_assertions_witness:
  "iid_likelihood ex_ext (ex_potential ex_obs1) ex_theta1 = Inl ShapeError
   \<and> iid_likelihood ex_ext (ex_potential ex_obs2) ex_theta_inf
       = Inl (NumericalError ''Joint likelihood contains infs or nans'')
   \<and> (\<exists>joint. joint_likelihood ex_ext (ex_potential ex_obs2) ex_theta2 = Inr joint
         \<and> shape joint = [2, 2] \<and> all_finite joint
         \<and> sum_dim 1 joint = Inr (Tensor [2] [Fin (75 / 4), Fin (83 / 4)]))"
proof -
  have a: "iid_likelihood ex_ext (ex_potential ex_obs1) ex_theta1 = Inl ShapeError"
    using iid_likelihood_assertions[of ex_theta1 2 "[2]" "ex_potential ex_obs1" 1 "[2]" ex_ext
        "Tensor [2, 2] [Fin (17 / 2), Fin (19 / 2), Fin (33 / 4), Fin (37 / 4)]"] ex_joint1
    by (simp add: ex_potential_defs)
  have b: "iid_likelihood ex_ext (ex_potential ex_obs2) ex_theta_inf
       = Inl (NumericalError ''Joint likelihood contains infs or nans'')"
    using iid_likelihood_assertions[of ex_theta_inf 2 "[3]" "ex_potential ex_obs2" 2 "[3]" ex_ext
        "Tensor [2, 2] [PInf, PInf, Fin (37 / 4), Fin (23 / 2)]"] ex_joint_inf
    by (simp add: ex_potential_defs all_finite_def)
  have c: "\<exists>joint. joint_likelihood ex_ext (ex_potential ex_obs2) ex_theta2 = Inr joint
         \<and> shape joint = [2, 2] \<and> all_finite joint
         \<and> sum_dim 1 joint = Inr (Tensor [2] [Fin (75 / 4), Fin (83 / 4)])"
    using iid_likelihood_assertions[of ex_theta2 2 "[3]" "ex_potential ex_obs2" 2 "[3]" ex_ext
        undefined "Tensor [2] [Fin (75 / 4), Fin (83 / 4)]"] ex_iid2
    by (simp add: ex_potential_defs)
  from a b c show ?thesis by blast
qed

subsection \<open>A single observed trial\<close>

text \<open>
  C10. With exactly one observed trial and more than one sample (at least one success
  probability, the observation holding a column for each, one scaling or one scaling per
  trial), the inverse-gamma term has the shape (b, 1, 1) and is squeezed to (b); the sum
  with the (b, 1) binomial part has the shape (b, b); and \<open>iid_likelihood\<close> ends with the
  shape error.
\<close>

theorem single_trial_batch_raises:
  assumes "shape theta = [b, Suc k]" "1 < b" "0 < k"
    and "shape (x_o self) = [1, m]" "k < m"
    and "scaling_layout self 1"
  shows "\<exists>theta3 beta rts joint.
       reshape3 b 1 theta = Inr theta3 \<and> slice_dim 2 0 (Some 1) theta3 = Inr beta
     \<and> logprob_rts ext self beta 1 = Inr rts \<and> shape rts = [b, 1, 1] \<and> shape (squeeze rts) = [b]
     \<and> joint_likelihood ext self theta = Inr joint \<and> shape joint = [b, b]
     \<and> iid_likelihood ext self theta = Inl ShapeError"
proof -
  have b: "0 < b" "b \<noteq> 1" using assms(2) by simp_all
  have m: "0 < m" using assms(3,5) by simp
  let ?beta = "build [b, 1, 1] (\<lambda>idx. elem theta [idx ! 0, 0])"
  let ?rts = "build [b, 1, 1] (\<lambda>idx. inverse_gamma_log_prob ext (scaling_at self (idx ! 1))
                                      (elem ?beta [idx ! 0, 0, 0]) (elem (x_o self) [idx ! 1, 0]))"
  have rt: "logprob_rts ext self ?beta 1 = Inr ?rts"
    by (rule logprob_rts_closed[where m=m]) (use assms m in simp_all)
  have sq: "shape (squeeze ?rts) = [b]" using b by (simp add: squeeze_def)
  note j = joint_likelihood_single_trial[OF assms, of ext]
  have iid: "iid_likelihood ext self theta = Inl ShapeError"
    using j assms(1,4) b by (simp add: iid_likelihood_def size0_def)
  have sr: "shape ?rts = [b, 1, 1]" by simp
  have sj: "shape (build [b, b] (\<lambda>idx.
           fadd (fsum (map (\<lambda>l. binomial_log_prob ext (elem theta [idx ! 0, 1 + l])
                                               (elem (x_o self) [0, 1 + l])) [0..<k]))
                (inverse_gamma_log_prob ext (scaling_at self 0) (elem theta [idx ! 1, 0])
                   (elem (x_o self) [0, 0])))) = [b, b]" by simp
  show ?thesis
    using reshape3_theta[OF assms(1) b(1)] slice_beta[OF assms(1)] rt sr sq j sj iid
    by blast
qed

text \<open>
  Three samples with two success probabilities each, one trial.
\<close>

theorem single_trial_batch_raises_witness:
  "(\<exists>joint. joint_likelihood ex_ext (ex_potential ex_obs3) ex_theta3 = Inr joint
       \<and> shape joint = [3, 3])
   \<and> iid_likelihood ex_ext (ex_potential ex_obs3) ex_theta3 = Inl ShapeError"
  using single_trial_batch_raises[of ex_theta3 3 2 "ex_potential ex_obs3" 3 ex_ext]
  by (auto simp: ex_potential_defs scaling_layout_def)

end
